theory Spec2Isabelle
  imports Complex_Main "HOL-Library.Product_Lexorder"
begin

section \<open>The support controller of CampusCart\<close>

text \<open>
  A shallow embedding of \<^verbatim>\<open>src/backend/controllers/supportController.js\<close> and of the
  routes of \<^verbatim>\<open>src/backend/routes/support.js\<close> that lead to it.

  The controller talks to a relational store through \<^verbatim>\<open>pool.execute\<close> and to the
  classifier through \<^verbatim>\<open>aiService.generateResponse\<close>. Both are outside the source
  files, so:
  \<^item> every table is a list of rows. The \<^verbatim>\<open>ORDER BY\<close> of a listing is a stable sort of
    that list; no statement below depends on the order of rows with equal sort keys
    there. The agent query of the escalation, whose first row decides the assignment,
    is different: which of the rows with the least sort key comes first is left to the
    store (\<open>tie_choice\<close>);
  \<^item> the classifier is a parameter \<open>ai\<close>, a function from the query text and the
    ticket type to a verdict;
  \<^item> each call of \<^verbatim>\<open>pool.execute\<close> or of the classifier may throw. A parameter
    \<open>F\<close> says at which call sites it does; a throw leaves the rows written so far in
    place (the controller opens no transaction) and goes to the enclosing
    \<^verbatim>\<open>catch\<close>;
  \<^item> \<^verbatim>\<open>CURRENT_TIMESTAMP\<close> is the parameter \<open>now\<close>: the statements of one request
    run at one instant.
\<close>

subsection \<open>Rows of the tables\<close>

text \<open>
  Modelled from the spec: the schema of the tables is not under src/. The columns are the
  ones the statements of the controller name; the column defaults the statements rely on
  are the ones of the spec's data model (status \<open>open\<close>, no assigned agent, internal-note
  flag false, not AI-generated, no confidence score). Columns are prefixed with the
  alias the queries use for their table.
\<close>

record user_row =
  u_user_id :: nat
  u_user_type :: string
  u_is_active :: bool

record ticket_row =
  st_ticket_id :: nat
  st_user_id :: nat
  st_order_id :: "nat option"
  st_restaurant_id :: "nat option"
  st_ticket_type :: string
  st_subject :: string
  st_description :: string
  st_priority :: string
  st_status :: string
  st_assigned_to :: "nat option"
  st_created_at :: nat
  st_updated_at :: nat

record message_row =
  cm_message_id :: nat
  cm_ticket_id :: nat
  cm_sender_id :: "nat option"
  cm_sender_type :: string
  cm_message_text :: string
  cm_is_internal_note :: bool
  cm_is_ai_generated :: bool
  cm_ai_confidence_score :: "real option"
  cm_created_at :: nat

record log_row =
  abl_ticket_id :: nat
  abl_user_query :: string
  abl_ai_response :: string
  abl_intent_detected :: string
  abl_confidence_score :: real
  abl_escalated_to_human :: bool

record escalation_row =
  te_ticket_id :: nat
  te_escalated_from :: "nat option"
  te_escalated_to :: nat
  te_escalation_reason :: string
  te_escalation_level :: string

record complaint_row =
  rc_ticket_id :: nat
  rc_restaurant_id :: nat
  rc_complaint_type :: string
  rc_complaint_summary :: "string option"

record order_row =
  o_order_id :: nat
  o_restaurant_id :: "nat option"

text \<open>
  The calls the controller makes to the classifier and to its own escalation routine,
  in the order in which it makes them. The list is kept beside the tables so that
  statements about when a collaborator is invoked can be made.

  A query that orders its rows leaves the order of rows with equal sort keys to the
  store: it depends on the engine, its indexes and its plan, none of which the
  controller fixes. \<open>tie_choice\<close> is that choice for the agent query: given the rows
  that share the least sort key, the position among them (taken modulo their number) of
  the row the store returns first.
\<close>

datatype call =
  GenerateResponse string string
  | EscalateToHuman nat string

record store =
  support_tickets :: "ticket_row list"
  chat_messages :: "message_row list"
  ai_bot_logs :: "log_row list"
  ticket_escalations :: "escalation_row list"
  restaurant_complaints :: "complaint_row list"
  users :: "user_row list"
  orders :: "order_row list"
  ticket_seq :: nat
  message_seq :: nat
  calls :: "call list"
  tie_choice :: "(nat \<times> nat) list \<Rightarrow> nat"

subsection \<open>Requests, responses and collaborators\<close>

text \<open>The verdict \<^verbatim>\<open>aiResponse\<close> of the classifier.\<close>

record verdict =
  message :: string
  confidence :: real
  intent :: string
  needsHuman :: bool

type_synonym classifier = "string \<Rightarrow> string \<Rightarrow> verdict"

text \<open>\<^verbatim>\<open>req.user\<close>, as the authentication middleware leaves it.\<close>

record auth_user =
  user_id :: nat
  user_type :: string

text \<open>
  The call sites that may throw, one for each \<^verbatim>\<open>pool.execute\<close> and each classifier
  call of the controller, named by handler and statement.
\<close>

datatype site =
  CT_insert_ticket | CT_insert_message | CT_generate | CT_insert_ai_message
  | CT_insert_ai_log | CT_select_order | CT_insert_complaint
  | EH_select_agents | EH_update_ticket | EH_insert_message | EH_insert_escalation
  | SM_insert_message | SM_update_ticket | SM_select_ticket | SM_generate
  | SM_insert_ai_message | SM_insert_ai_log
  | GM_select_ticket | GM_select_messages
  | DT_select_ticket | DT_select_messages | DT_select_complaints
  | GA_select_tickets

type_synonym faults = "site \<Rightarrow> bool"

text \<open>The error responses: the HTTP status and the \<^verbatim>\<open>error\<close> text.\<close>

datatype error =
  BadRequest string
  | Forbidden string
  | NotFound string
  | ServerError string

subsection \<open>JavaScript truthiness of the request fields\<close>

text \<open>
  A field of the request body is absent (or null) or a value of its type: text fields are
  strings, identities are numbers. \<^verbatim>\<open>!x\<close> holds of an absent field, of the empty string
  and of the number 0.
\<close>

definition truthy_str :: "string option \<Rightarrow> bool" where
  "truthy_str x = (case x of None \<Rightarrow> False | Some v \<Rightarrow> v \<noteq> [])"

definition truthy_id :: "nat option \<Rightarrow> bool" where
  "truthy_id x = (case x of None \<Rightarrow> False | Some n \<Rightarrow> n \<noteq> 0)"

text \<open>\<^verbatim>\<open>x || null\<close> on an identity.\<close>

definition or_null :: "nat option \<Rightarrow> nat option" where
  "or_null x = (if truthy_id x then x else None)"

text \<open>\<^verbatim>\<open>x || d\<close> on a text field.\<close>

definition or_default :: "string option \<Rightarrow> string \<Rightarrow> string" where
  "or_default x d = (case x of None \<Rightarrow> d | Some v \<Rightarrow> if v \<noteq> [] then v else d)"

subsection \<open>Inserting a chat message\<close>

text \<open>
  \<^verbatim>\<open>INSERT INTO chat_messages\<close>: the row takes the next identity of the table, which
  is the statement's \<^verbatim>\<open>insertId\<close>.
\<close>

definition insert_message ::
  "nat \<Rightarrow> nat option \<Rightarrow> string \<Rightarrow> string \<Rightarrow> bool \<Rightarrow> bool \<Rightarrow> real option \<Rightarrow> nat \<Rightarrow> store \<Rightarrow> store" where
  "insert_message ticketId sender senderType body internal aiGenerated score now s =
     s\<lparr>chat_messages := chat_messages s @
          [\<lparr>cm_message_id = message_seq s, cm_ticket_id = ticketId, cm_sender_id = sender,
            cm_sender_type = senderType, cm_message_text = body,
            cm_is_internal_note = internal, cm_is_ai_generated = aiGenerated,
            cm_ai_confidence_score = score, cm_created_at = now\<rparr>],
       message_seq := Suc (message_seq s)\<rparr>"

subsection \<open>escalateToHuman\<close>

text \<open>
  The load of an agent: the tickets the \<^verbatim>\<open>LEFT JOIN\<close> of the agent query pairs with
  the agent, those assigned to the agent in status \<open>assigned\<close> or \<open>in_progress\<close>.
\<close>

definition active_tickets :: "store \<Rightarrow> nat \<Rightarrow> nat" where
  "active_tickets s uid =
     length (filter (\<lambda>t. st_assigned_to t = Some uid \<and>
                          (st_status t = ''assigned'' \<or> st_status t = ''in_progress''))
               (support_tickets s))"

text \<open>The \<^verbatim>\<open>WHERE\<close> clause of the agent query.\<close>

definition active_agents :: "store \<Rightarrow> user_row list" where
  "active_agents s =
     filter (\<lambda>u. u_user_type u = ''support_agent'' \<and> u_is_active u) (users s)"

text \<open>
  The rows of the agent query before its \<^verbatim>\<open>ORDER BY\<close>: one row
  \<open>(user_id, active_tickets)\<close> for each active support agent (\<open>user_id\<close> is the key of
  \<open>users\<close>, so each group of the \<^verbatim>\<open>GROUP BY\<close> is one user).
\<close>

definition agent_rows :: "store \<Rightarrow> (nat \<times> nat) list" where
  "agent_rows s =
     map (\<lambda>u. (u_user_id u, active_tickets s (u_user_id u))) (active_agents s)"

text \<open>
  The rows that \<^verbatim>\<open>ORDER BY active_tickets ASC\<close> allows in first place: those whose
  count is least. The query names no second sort key.
\<close>

definition least_rows :: "store \<Rightarrow> (nat \<times> nat) list" where
  "least_rows s =
     filter (\<lambda>r. list_all (\<lambda>r'. snd r \<le> snd r') (agent_rows s)) (agent_rows s)"

text \<open>
  The agent query with its \<^verbatim>\<open>LIMIT 1\<close>: no row when there is no active support agent,
  and otherwise the one of the rows with the least count that the store returns first.
\<close>

definition select_agents :: "store \<Rightarrow> (nat \<times> nat) list" where
  "select_agents s =
     (if least_rows s = [] then []
      else [least_rows s ! (tie_choice s (least_rows s) mod length (least_rows s))])"

text \<open>The \<^verbatim>\<open>UPDATE\<close> of the escalation.\<close>

definition assign_ticket :: "nat \<Rightarrow> nat \<Rightarrow> nat \<Rightarrow> ticket_row \<Rightarrow> ticket_row" where
  "assign_ticket ticketId agentId now t =
     (if st_ticket_id t = ticketId
      then t\<lparr>st_assigned_to := Some agentId, st_status := ''assigned'', st_updated_at := now\<rparr>
      else t)"

definition joined_notice :: string where
  "joined_notice = ''A support agent has joined the conversation and will assist you shortly.''"

text \<open>
  The whole body is inside \<^verbatim>\<open>try\<close>, and the \<^verbatim>\<open>catch\<close> only logs: a throw ends the
  routine with the rows written so far, and nothing reaches the caller.
\<close>

definition escalateToHuman :: "faults \<Rightarrow> nat \<Rightarrow> nat \<Rightarrow> string \<Rightarrow> store \<Rightarrow> store" where
  "escalateToHuman F now ticketId reason s0 =
     (let s = s0\<lparr>calls := calls s0 @ [EscalateToHuman ticketId reason]\<rparr> in
      if F EH_select_agents then s
      else case select_agents s of
        [] \<Rightarrow> s
      | agent # _ \<Rightarrow>
          let agentId = fst agent in
          if F EH_update_ticket then s
          else
            let s1 = s\<lparr>support_tickets :=
                        map (assign_ticket ticketId agentId now) (support_tickets s)\<rparr> in
            if F EH_insert_message then s1
            else
              let s2 = insert_message ticketId None ''ai_bot'' joined_notice False True None now s1 in
              if F EH_insert_escalation then s2
              else s2\<lparr>ticket_escalations := ticket_escalations s2 @
                        [\<lparr>te_ticket_id = ticketId, te_escalated_from = None,
                          te_escalated_to = agentId, te_escalation_reason = reason,
                          te_escalation_level = ''agent''\<rparr>]\<rparr>)"

subsection \<open>createTicket\<close>

text \<open>\<^verbatim>\<open>req.body\<close> of a ticket creation, with the names the handler gives its fields.\<close>

record ticket_body =
  order_id :: "nat option"
  restaurant_id :: "nat option"
  ticket_type :: "string option"
  subject :: "string option"
  description :: "string option"
  priority :: "string option"

text \<open>The body of the 201 response.\<close>

record create_response =
  res_message :: string
  res_ticket_id :: nat
  res_ai_response :: string
  res_escalated :: bool
  res_status :: string

text \<open>The string a text field holds (the empty string when it is absent).\<close>

definition str_of :: "string option \<Rightarrow> string" where
  "str_of x = (case x of None \<Rightarrow> [] | Some v \<Rightarrow> v)"

text \<open>
  The row of \<^verbatim>\<open>INSERT INTO support_tickets\<close>: the seven bound values, the identity
  the table assigns, and the column defaults. The row records each bound value as it is
  bound; the statement sets neither status nor assigned agent.
\<close>

definition new_ticket :: "nat \<Rightarrow> nat \<Rightarrow> auth_user \<Rightarrow> ticket_body \<Rightarrow> ticket_row" where
  "new_ticket ticketId now usr body =
     \<lparr>st_ticket_id = ticketId, st_user_id = user_id usr,
      st_order_id = or_null (order_id body),
      st_restaurant_id = or_null (restaurant_id body),
      st_ticket_type = str_of (ticket_type body),
      st_subject = str_of (subject body),
      st_description = str_of (description body),
      st_priority = or_default (priority body) ''medium'',
      st_status = ''open'', st_assigned_to = None,
      st_created_at = now, st_updated_at = now\<rparr>"

text \<open>\<^verbatim>\<open>subject || description || null\<close>.\<close>

definition complaint_summary :: "ticket_body \<Rightarrow> string option" where
  "complaint_summary body =
     (if truthy_str (subject body) then subject body
      else if truthy_str (description body) then description body
      else None)"

text \<open>
  The restaurant the complaint goes to (lines 56 to 72): the restaurant of the request,
  or, when there is none and the request names an order, the restaurant of the first
  row of \<open>orders\<close> with that identity. A throw of the lookup is caught by the inner
  \<^verbatim>\<open>catch\<close>, which leaves the restaurant as it was.
\<close>

definition effectiveRestaurantId :: "faults \<Rightarrow> ticket_body \<Rightarrow> store \<Rightarrow> nat option" where
  "effectiveRestaurantId F body s =
     (if \<not> truthy_id (restaurant_id body) \<and> truthy_id (order_id body)
      then (if F CT_select_order then restaurant_id body
            else case filter (\<lambda>ord. Some (o_order_id ord) = order_id body) (orders s) of
                   [] \<Rightarrow> restaurant_id body
                 | ord # _ \<Rightarrow> o_restaurant_id ord)
      else restaurant_id body)"

text \<open>
  The complaint step (lines 55 to 87). A throw of the insert is caught by the outer
  \<^verbatim>\<open>catch\<close>, which only logs.
\<close>

definition complaint_step :: "faults \<Rightarrow> nat \<Rightarrow> ticket_body \<Rightarrow> store \<Rightarrow> store" where
  "complaint_step F ticketId body s =
     (case effectiveRestaurantId F body s of
        None \<Rightarrow> s
      | Some r \<Rightarrow>
          if r = 0 then s
          else if F CT_insert_complaint then s
          else s\<lparr>restaurant_complaints := restaurant_complaints s @
                   [\<lparr>rc_ticket_id = ticketId, rc_restaurant_id = r,
                     rc_complaint_type = str_of (ticket_type body),
                     rc_complaint_summary = complaint_summary body\<rparr>]\<rparr>)"

text \<open>The reason the creation hands to the escalation (line 51).\<close>

definition auto_reason :: "verdict \<Rightarrow> string" where
  "auto_reason aiResponse =
     ''Auto-escalation: '' @
       (if needsHuman aiResponse then ''AI confidence low'' else ''Urgent priority'')"

definition create_failed :: error where
  "create_failed = ServerError ''Failed to create support ticket''"

text \<open>
  The handler. Each \<open>if F site\<close> is a throw of that call, which the outer
  \<^verbatim>\<open>catch\<close> turns into the 500 response.
\<close>

definition createTicket ::
  "faults \<Rightarrow> classifier \<Rightarrow> nat \<Rightarrow> auth_user \<Rightarrow> ticket_body \<Rightarrow> store
     \<Rightarrow> (error + create_response) \<times> store" where
  "createTicket F ai now usr body s =
     (if \<not> truthy_str (ticket_type body) \<or> \<not> truthy_str (subject body)
           \<or> \<not> truthy_str (description body)
      then (Inl (BadRequest ''Missing required fields''), s)
      else if F CT_insert_ticket then (Inl create_failed, s)
      else
        let ticketId = ticket_seq s;
            s1 = s\<lparr>support_tickets := support_tickets s @ [new_ticket ticketId now usr body],
                   ticket_seq := Suc (ticket_seq s)\<rparr> in
        if F CT_insert_message then (Inl create_failed, s1)
        else
          let s2 = insert_message ticketId (Some (user_id usr)) ''customer''
                     (str_of (description body)) False False None now s1;
              s3 = s2\<lparr>calls := calls s2 @
                     [GenerateResponse (str_of (description body)) (str_of (ticket_type body))]\<rparr> in
          if F CT_generate then (Inl create_failed, s3)
          else
            let aiResponse = ai (str_of (description body)) (str_of (ticket_type body)) in
            if F CT_insert_ai_message then (Inl create_failed, s3)
            else
              let s4 = insert_message ticketId None ''ai_bot'' (message aiResponse) False True
                         (Some (confidence aiResponse)) now s3 in
              if F CT_insert_ai_log then (Inl create_failed, s4)
              else
                let s5 = s4\<lparr>ai_bot_logs := ai_bot_logs s4 @
                           [\<lparr>abl_ticket_id = ticketId,
                             abl_user_query = str_of (description body),
                             abl_ai_response = message aiResponse,
                             abl_intent_detected = intent aiResponse,
                             abl_confidence_score = confidence aiResponse,
                             abl_escalated_to_human = needsHuman aiResponse\<rparr>]\<rparr>;
                    s6 = (if needsHuman aiResponse \<or> priority body = Some ''urgent''
                          then escalateToHuman F now ticketId (auto_reason aiResponse) s5
                          else s5);
                    s7 = complaint_step F ticketId body s6
                in (Inr \<lparr>res_message = ''Support ticket created successfully'',
                         res_ticket_id = ticketId,
                         res_ai_response = message aiResponse,
                         res_escalated = needsHuman aiResponse,
                         res_status = ''open''\<rparr>, s7))"

text \<open>
  The store after the first five calls of the handler (lines 18 to 47), when none of them
  throws: the ticket, the opening message of the customer, the call of the classifier,
  its message and its log entry.
\<close>

definition primary_writes :: "classifier \<Rightarrow> nat \<Rightarrow> auth_user \<Rightarrow> ticket_body \<Rightarrow> store \<Rightarrow> store" where
  "primary_writes ai now usr body s =
     (let ticketId = ticket_seq s;
          aiResponse = ai (str_of (description body)) (str_of (ticket_type body));
          s1 = s\<lparr>support_tickets := support_tickets s @ [new_ticket ticketId now usr body],
                 ticket_seq := Suc (ticket_seq s)\<rparr>;
          s2 = insert_message ticketId (Some (user_id usr)) ''customer''
                 (str_of (description body)) False False None now s1;
          s3 = s2\<lparr>calls := calls s2 @
                 [GenerateResponse (str_of (description body)) (str_of (ticket_type body))]\<rparr>;
          s4 = insert_message ticketId None ''ai_bot'' (message aiResponse) False True
                 (Some (confidence aiResponse)) now s3
      in s4\<lparr>ai_bot_logs := ai_bot_logs s4 @
              [\<lparr>abl_ticket_id = ticketId,
                abl_user_query = str_of (description body),
                abl_ai_response = message aiResponse,
                abl_intent_detected = intent aiResponse,
                abl_confidence_score = confidence aiResponse,
                abl_escalated_to_human = needsHuman aiResponse\<rparr>]\<rparr>)"

text \<open>The request is valid and none of the first five calls throws.\<close>

definition creates :: "faults \<Rightarrow> ticket_body \<Rightarrow> bool" where
  "creates F body =
     (truthy_str (ticket_type body) \<and> truthy_str (subject body) \<and>
      truthy_str (description body) \<and>
      \<not> F CT_insert_ticket \<and> \<not> F CT_insert_message \<and> \<not> F CT_generate \<and>
      \<not> F CT_insert_ai_message \<and> \<not> F CT_insert_ai_log)"

subsection \<open>getTicketMessages and debugTicket\<close>

text \<open>
  The rows are those of \<open>chat_messages\<close>; the two display columns the queries join in
  from \<open>users\<close> (name and role of the sender) are left out. The routes to both
  handlers, and to \<open>sendMessage\<close>, run \<^verbatim>\<open>authenticateToken\<close> only, so every
  authenticated user reaches them, whatever the role.
\<close>

definition staff :: "string \<Rightarrow> bool" where
  "staff userType =
     (userType = ''support_agent'' \<or> userType = ''senior_support'' \<or> userType = ''admin'')"

definition select_messages :: "string \<Rightarrow> nat \<Rightarrow> store \<Rightarrow> message_row list" where
  "select_messages userType ticketId s =
     sort_key cm_created_at
       (filter (\<lambda>m. cm_ticket_id m = ticketId \<and> (cm_is_internal_note m = False \<or> staff userType))
          (chat_messages s))"

definition getTicketMessages :: "faults \<Rightarrow> auth_user \<Rightarrow> nat \<Rightarrow> store \<Rightarrow> error + message_row list" where
  "getTicketMessages F usr ticketId s =
     (let listing = (if F GM_select_messages then Inl (ServerError ''Failed to get messages'')
                     else Inr (select_messages (user_type usr) ticketId s)) in
      if user_type usr = ''student''
      then (if F GM_select_ticket then Inl (ServerError ''Failed to get messages'')
            else if filter (\<lambda>t. st_ticket_id t = ticketId \<and> st_user_id t = user_id usr)
                      (support_tickets s) = []
            then Inl (Forbidden ''Access denied'')
            else listing)
      else listing)"

record debug_response =
  dbg_ticket :: ticket_row
  dbg_messages :: "message_row list"
  dbg_restaurant_complaints :: "complaint_row list"

text \<open>The handler reads \<^verbatim>\<open>req.params\<close> only: \<open>usr\<close> is whoever the route let in.\<close>

definition debugTicket :: "faults \<Rightarrow> auth_user \<Rightarrow> nat \<Rightarrow> store \<Rightarrow> error + debug_response" where
  "debugTicket F usr ticketId s =
     (if F DT_select_ticket then Inl (ServerError ''Failed to debug ticket'')
      else case filter (\<lambda>t. st_ticket_id t = ticketId) (support_tickets s) of
        [] \<Rightarrow> Inl (NotFound ''Ticket not found'')
      | ticket # _ \<Rightarrow>
          if F DT_select_messages then Inl (ServerError ''Failed to debug ticket'')
          else if F DT_select_complaints then Inl (ServerError ''Failed to debug ticket'')
          else Inr \<lparr>dbg_ticket = ticket,
                    dbg_messages =
                      sort_key cm_created_at
                        (filter (\<lambda>m. cm_ticket_id m = ticketId) (chat_messages s)),
                    dbg_restaurant_complaints =
                      filter (\<lambda>c. rc_ticket_id c = ticketId) (restaurant_complaints s)\<rparr>)"

subsection \<open>sendMessage\<close>

record message_body =
  message_text :: "string option"
  is_internal_note :: "bool option"

record send_response =
  sent_message :: string
  message_id :: nat

text \<open>
  \<^verbatim>\<open>String.prototype.trim\<close> removes white space and line terminators at both ends.
  A character is a code unit below 256: tab, line feed, vertical tab, form feed,
  carriage return, space and the no-break space.
\<close>

definition is_space :: "char \<Rightarrow> bool" where
  "is_space c =
     (c \<in> set [CHR 0x09, CHR 0x0A, CHR 0x0B, CHR 0x0C, CHR 0x0D, CHR 0x20, CHR 0xA0])"

definition trim :: "string \<Rightarrow> string" where
  "trim t = rev (dropWhile is_space (rev (dropWhile is_space t)))"

definition senderTypeMap :: "string \<Rightarrow> string option" where
  "senderTypeMap =
     map_of [(''student'', ''customer''), (''support_agent'', ''support_agent''),
             (''senior_support'', ''senior_support''), (''admin'', ''senior_support'')]"

text \<open>\<^verbatim>\<open>is_internal_note || false\<close>.\<close>

definition or_false :: "bool option \<Rightarrow> bool" where
  "or_false x = (case x of None \<Rightarrow> False | Some b \<Rightarrow> b)"

text \<open>The \<^verbatim>\<open>UPDATE\<close> of lines 202 to 211, on one row.\<close>

definition touch_ticket :: "string \<Rightarrow> nat \<Rightarrow> nat \<Rightarrow> ticket_row \<Rightarrow> ticket_row" where
  "touch_ticket userType ticketId now t =
     (if st_ticket_id t = ticketId
      then t\<lparr>st_updated_at := now,
             st_status :=
               (if st_status t = ''open'' \<and>
                   (userType = ''support_agent'' \<or> userType = ''senior_support'')
                then ''in_progress'' else st_status t)\<rparr>
      else t)"

definition send_failed :: error where
  "send_failed = ServerError ''Failed to send message''"

definition sendMessage ::
  "faults \<Rightarrow> classifier \<Rightarrow> nat \<Rightarrow> auth_user \<Rightarrow> nat \<Rightarrow> message_body \<Rightarrow> store
     \<Rightarrow> (error + send_response) \<times> store" where
  "sendMessage F ai now usr ticketId body s =
     (if \<not> truthy_str (message_text body) \<or> trim (str_of (message_text body)) = []
      then (Inl (BadRequest ''Message text is required''), s)
      else
        let senderType = or_default (senderTypeMap (user_type usr)) ''customer'' in
        if F SM_insert_message then (Inl send_failed, s)
        else
          let insertId = message_seq s;
              s1 = insert_message ticketId (Some (user_id usr)) senderType
                     (str_of (message_text body)) (or_false (is_internal_note body))
                     False None now s in
          if F SM_update_ticket then (Inl send_failed, s1)
          else
            let s2 = s1\<lparr>support_tickets :=
                        map (touch_ticket (user_type usr) ticketId now) (support_tickets s1)\<rparr>;
                sent = Inr \<lparr>sent_message = ''Message sent successfully'',
                            message_id = insertId\<rparr> in
            if user_type usr = ''student''
            then
              if F SM_select_ticket then (Inl send_failed, s2)
              else case filter (\<lambda>t. st_ticket_id t = ticketId) (support_tickets s2) of
                [] \<Rightarrow> (sent, s2)
              | ticket # _ \<Rightarrow>
                  if truthy_id (st_assigned_to ticket) then (sent, s2)
                  else
                    let s3 = s2\<lparr>calls := calls s2 @
                               [GenerateResponse (str_of (message_text body))
                                  (st_ticket_type ticket)]\<rparr> in
                    if F SM_generate then (Inl send_failed, s3)
                    else
                      let aiResponse = ai (str_of (message_text body)) (st_ticket_type ticket) in
                      if F SM_insert_ai_message then (Inl send_failed, s3)
                      else
                        let s4 = insert_message ticketId None ''ai_bot'' (message aiResponse)
                                   False True (Some (confidence aiResponse)) now s3 in
                        if F SM_insert_ai_log then (Inl send_failed, s4)
                        else
                          let s5 = s4\<lparr>ai_bot_logs := ai_bot_logs s4 @
                                     [\<lparr>abl_ticket_id = ticketId,
                                       abl_user_query = str_of (message_text body),
                                       abl_ai_response = message aiResponse,
                                       abl_intent_detected = intent aiResponse,
                                       abl_confidence_score = confidence aiResponse,
                                       abl_escalated_to_human = needsHuman aiResponse\<rparr>]\<rparr>;
                              s6 = (if needsHuman aiResponse
                                    then escalateToHuman F now ticketId
                                           ''AI escalation recommended'' s5
                                    else s5)
                          in (sent, s6)
            else (sent, s2))"

text \<open>
  The store after the first two calls of the handler (lines 196 to 211), when neither
  throws: the message of the sender and the update of the ticket.
\<close>

definition post_writes :: "nat \<Rightarrow> auth_user \<Rightarrow> nat \<Rightarrow> message_body \<Rightarrow> store \<Rightarrow> store" where
  "post_writes now usr ticketId body s =
     (let s1 = insert_message ticketId (Some (user_id usr))
                 (or_default (senderTypeMap (user_type usr)) ''customer'')
                 (str_of (message_text body)) (or_false (is_internal_note body))
                 False None now s
      in s1\<lparr>support_tickets :=
              map (touch_ticket (user_type usr) ticketId now) (support_tickets s1)\<rparr>)"

text \<open>
  The row the handler reads on line 215, when it exists and has no assigned agent
  (\<^verbatim>\<open>!ticket[0].assigned_to\<close>).
\<close>

definition unassigned_ticket :: "nat \<Rightarrow> store \<Rightarrow> ticket_row option" where
  "unassigned_ticket ticketId s =
     (case filter (\<lambda>t. st_ticket_id t = ticketId) (support_tickets s) of
        [] \<Rightarrow> None
      | ticket # _ \<Rightarrow> if truthy_id (st_assigned_to ticket) then None else Some ticket)"

text \<open>
  The store after the call of the classifier, its message and its log entry (lines 221
  to 233), when none of them throws.
\<close>

definition followup_writes ::
  "classifier \<Rightarrow> nat \<Rightarrow> nat \<Rightarrow> message_body \<Rightarrow> ticket_row \<Rightarrow> store \<Rightarrow> store" where
  "followup_writes ai now ticketId body ticket s2 =
     (let aiResponse = ai (str_of (message_text body)) (st_ticket_type ticket);
          s3 = s2\<lparr>calls := calls s2 @
                 [GenerateResponse (str_of (message_text body)) (st_ticket_type ticket)]\<rparr>;
          s4 = insert_message ticketId None ''ai_bot'' (message aiResponse)
                 False True (Some (confidence aiResponse)) now s3
      in s4\<lparr>ai_bot_logs := ai_bot_logs s4 @
              [\<lparr>abl_ticket_id = ticketId,
                abl_user_query = str_of (message_text body),
                abl_ai_response = message aiResponse,
                abl_intent_detected = intent aiResponse,
                abl_confidence_score = confidence aiResponse,
                abl_escalated_to_human = needsHuman aiResponse\<rparr>]\<rparr>)"

text \<open>The text passes the check of line 183.\<close>

definition has_text :: "message_body \<Rightarrow> bool" where
  "has_text body =
     (truthy_str (message_text body) \<and> trim (str_of (message_text body)) \<noteq> [])"

subsection \<open>getAllTickets\<close>

text \<open>\<^verbatim>\<open>req.query\<close> of the agent listing.\<close>

record ticket_query =
  q_status :: "string option"
  q_priority :: "string option"

text \<open>
  Modelled from the spec: the declaration of the column \<open>priority\<close> is not under src/.
  The spec's data model gives the priority as the enumeration low, medium, high, urgent;
  the store orders an enumerated column by the position of the value in the
  enumeration, and a value outside it comes before all of them.
\<close>

definition priority_rank :: "string \<Rightarrow> nat" where
  "priority_rank p =
     (if p = ''low'' then 1 else if p = ''medium'' then 2
      else if p = ''high'' then 3 else if p = ''urgent'' then 4 else 0)"

text \<open>
  The \<^verbatim>\<open>WHERE\<close> clause the handler builds, with the inner join on the owner of the
  ticket (\<open>user_id\<close> is the key of \<open>users\<close>, so the join keeps a ticket once, when its
  owner exists). The columns joined in for display are left out.
\<close>

definition open_ticket :: "auth_user \<Rightarrow> ticket_query \<Rightarrow> store \<Rightarrow> ticket_row \<Rightarrow> bool" where
  "open_ticket usr q s t =
     (filter (\<lambda>u. u_user_id u = st_user_id t) (users s) \<noteq> [] \<and>
      st_status t \<noteq> ''resolved'' \<and> st_status t \<noteq> ''closed'' \<and>
      (if user_type usr = ''support_agent''
       then st_assigned_to t = None \<or> st_assigned_to t = Some (user_id usr) else True) \<and>
      (if truthy_str (q_status q) then st_status t = str_of (q_status q) else True) \<and>
      (if truthy_str (q_priority q) then st_priority t = str_of (q_priority q) else True))"

text \<open>\<^verbatim>\<open>ORDER BY st.priority DESC, st.created_at ASC\<close>, as one sort key.\<close>

definition ticket_order :: "ticket_row \<Rightarrow> int \<times> nat" where
  "ticket_order t = (- int (priority_rank (st_priority t)), st_created_at t)"

definition getAllTickets ::
  "faults \<Rightarrow> auth_user \<Rightarrow> ticket_query \<Rightarrow> store \<Rightarrow> error + ticket_row list" where
  "getAllTickets F usr q s =
     (if F GA_select_tickets then Inl (ServerError ''Failed to get tickets'')
      else Inr (sort_key ticket_order (filter (open_ticket usr q s) (support_tickets s))))"

subsection \<open>Example stores and requests\<close>

text \<open>The run in which no call throws.\<close>

definition no_faults :: faults where
  "no_faults = (\<lambda>site. False)"

definition demo_ticket :: "nat \<Rightarrow> nat \<Rightarrow> string \<Rightarrow> nat option \<Rightarrow> string \<Rightarrow> nat \<Rightarrow> ticket_row" where
  "demo_ticket tid owner st agent prio created =
     \<lparr>st_ticket_id = tid, st_user_id = owner, st_order_id = None, st_restaurant_id = None,
      st_ticket_type = ''payment'', st_subject = ''Double charge'',
      st_description = ''I was charged twice'', st_priority = prio, st_status = st,
      st_assigned_to = agent, st_created_at = created, st_updated_at = created\<rparr>"

definition demo_user :: "nat \<Rightarrow> string \<Rightarrow> bool \<Rightarrow> user_row" where
  "demo_user uid role active = \<lparr>u_user_id = uid, u_user_type = role, u_is_active = active\<rparr>"

definition empty_store :: store where
  "empty_store =
     \<lparr>support_tickets = [], chat_messages = [], ai_bot_logs = [], ticket_escalations = [],
      restaurant_complaints = [], users = [], orders = [],
      ticket_seq = 1, message_seq = 1, calls = [], tie_choice = (\<lambda>rows. 0)\<rparr>"

text \<open>
  Two active agents, 3 and 7, without tickets, in a store that returns the second of
  two rows with equal count first.
\<close>

definition tie_store :: store where
  "tie_store =
     empty_store\<lparr>users := [demo_user 3 ''support_agent'' True,
                             demo_user 7 ''support_agent'' True],
       tie_choice := (\<lambda>rows. 1)\<rparr>"

text \<open>
  Agents 11, 12 and 13 with loads 3, 1 and 2, an inactive agent 14 without tickets and a
  student 5 who owns the tickets.
\<close>

definition loads_store :: store where
  "loads_store =
     empty_store\<lparr>users := [demo_user 5 ''student'' True,
                             demo_user 11 ''support_agent'' True,
                             demo_user 12 ''support_agent'' True,
                             demo_user 13 ''support_agent'' True,
                             demo_user 14 ''support_agent'' False],
       support_tickets :=
         [demo_ticket 1 5 ''assigned'' (Some 11) ''low'' 10,
          demo_ticket 2 5 ''in_progress'' (Some 11) ''high'' 11,
          demo_ticket 3 5 ''assigned'' (Some 11) ''medium'' 12,
          demo_ticket 4 5 ''in_progress'' (Some 12) ''urgent'' 13,
          demo_ticket 5 5 ''resolved'' (Some 12) ''low'' 14,
          demo_ticket 6 5 ''assigned'' (Some 13) ''medium'' 15,
          demo_ticket 7 5 ''in_progress'' (Some 13) ''high'' 16,
          demo_ticket 8 5 ''open'' None ''medium'' 17],
       ticket_seq := 9\<rparr>"

text \<open>The student of the examples, two classifiers and the request of the spec's scenario.\<close>

definition student5 :: auth_user where
  "student5 = \<lparr>user_id = 5, user_type = ''student''\<rparr>"

definition calm_ai :: classifier where
  "calm_ai query ty =
     \<lparr>message = ''Please check your payment history.'', confidence = 9 / 10,
      intent = ''payment'', needsHuman = False\<rparr>"

definition worried_ai :: classifier where
  "worried_ai query ty =
     \<lparr>message = ''Let me connect you with a human agent.'', confidence = 3 / 10,
      intent = ''unknown'', needsHuman = True\<rparr>"

definition urgent_body :: ticket_body where
  "urgent_body =
     \<lparr>order_id = None, restaurant_id = None, ticket_type = Some ''payment'',
      subject = Some ''Double charge'', description = Some ''I was charged twice'',
      priority = Some ''urgent''\<rparr>"

text \<open>One active agent of load 0, and the student.\<close>

definition one_agent_store :: store where
  "one_agent_store =
     empty_store\<lparr>users := [demo_user 5 ''student'' True,
                             demo_user 11 ''support_agent'' True],
       orders := [\<lparr>o_order_id = 40, o_restaurant_id = Some 9\<rparr>]\<rparr>"

text \<open>A request that names order 40, which the store has for restaurant 9.\<close>

definition order_body :: ticket_body where
  "order_body = urgent_body\<lparr>order_id := Some 40, priority := Some ''low''\<rparr>"

text \<open>Runs in which one call throws: the complaint insert, or the agent query.\<close>

definition complaint_fault :: faults where
  "complaint_fault site = (site = CT_insert_complaint)"

definition escalation_fault :: faults where
  "escalation_fault site = (site = EH_select_agents)"

text \<open>
  Ticket 4 of student 5, unassigned, with the opening message and an internal note of
  agent 11; student 6 owns nothing.
\<close>

definition notes_store :: store where
  "notes_store =
     empty_store\<lparr>users := [demo_user 5 ''student'' True, demo_user 6 ''student'' True,
                             demo_user 11 ''support_agent'' True],
       support_tickets := [demo_ticket 4 5 ''open'' None ''medium'' 10],
       chat_messages :=
         [\<lparr>cm_message_id = 8, cm_ticket_id = 4, cm_sender_id = Some 5,
           cm_sender_type = ''customer'', cm_message_text = ''I was charged twice'',
           cm_is_internal_note = False, cm_is_ai_generated = False,
           cm_ai_confidence_score = None, cm_created_at = 10\<rparr>,
          \<lparr>cm_message_id = 9, cm_ticket_id = 4, cm_sender_id = Some 11,
           cm_sender_type = ''support_agent'', cm_message_text = ''Refunded twice already'',
           cm_is_internal_note = True, cm_is_ai_generated = False,
           cm_ai_confidence_score = None, cm_created_at = 11\<rparr>],
       ticket_seq := 5, message_seq := 10\<rparr>"

definition student6 :: auth_user where
  "student6 = \<lparr>user_id = 6, user_type = ''student''\<rparr>"

definition agent11 :: auth_user where
  "agent11 = \<lparr>user_id = 11, user_type = ''support_agent''\<rparr>"

definition hello :: message_body where
  "hello = \<lparr>message_text = Some ''Any news?'', is_internal_note = None\<rparr>"

definition blank :: message_body where
  "blank = \<lparr>message_text = Some '' '', is_internal_note = None\<rparr>"

text \<open>An admin, agent 12 and a listing request without filters.\<close>

definition admin20 :: auth_user where
  "admin20 = \<lparr>user_id = 20, user_type = ''admin''\<rparr>"

definition agent12 :: auth_user where
  "agent12 = \<lparr>user_id = 12, user_type = ''support_agent''\<rparr>"

definition no_filter :: ticket_query where
  "no_filter = \<lparr>q_status = None, q_priority = None\<rparr>"

section \<open>Properties\<close>

subsection \<open>The agent the escalation selects\<close>

lemma agent_rows_calls [simp]: "agent_rows (s\<lparr>calls := c\<rparr>) = agent_rows s"
  by (simp add: agent_rows_def active_agents_def active_tickets_def)

lemma agent_rows_tie_choice [simp]: "agent_rows (s\<lparr>tie_choice := c\<rparr>) = agent_rows s"
  by (simp add: agent_rows_def active_agents_def active_tickets_def)

lemma least_rows_calls [simp]: "least_rows (s\<lparr>calls := c\<rparr>) = least_rows s"
  by (simp add: least_rows_def)

lemma least_rows_tie_choice [simp]: "least_rows (s\<lparr>tie_choice := c\<rparr>) = least_rows s"
  by (simp add: least_rows_def)

lemma select_agents_calls [simp]: "select_agents (s\<lparr>calls := c\<rparr>) = select_agents s"
  by (simp add: select_agents_def)

lemma least_rows_iff:
  "r \<in> set (least_rows s) \<longleftrightarrow>
     r \<in> set (agent_rows s) \<and> (\<forall>r' \<in> set (agent_rows s). snd r \<le> snd r')"
  by (auto simp add: least_rows_def list_all_iff)

text \<open>Some row has the least count.\<close>

lemma least_rows_nonempty:
  assumes "agent_rows s \<noteq> []"
  shows "least_rows s \<noteq> []"
proof -
  let ?r = "arg_min_list snd (agent_rows s)"
  have "?r \<in> set (agent_rows s)"
    using assms by (rule arg_min_list_in)
  moreover have "\<forall>r' \<in> set (agent_rows s). snd ?r \<le> snd r'"
    using assms by (simp add: f_arg_min_list_f)
  ultimately have "?r \<in> set (least_rows s)"
    by (simp add: least_rows_iff)
  then show ?thesis by auto
qed

lemma select_agents_empty: "active_agents s = [] \<Longrightarrow> select_agents s = []"
  by (simp add: select_agents_def least_rows_def agent_rows_def)

text \<open>The row the query returns is the row of an active support agent with the least load.\<close>

lemma select_agents_some:
  assumes "active_agents s \<noteq> []"
  shows "\<exists>u \<in> set (active_agents s).
           select_agents s = [(u_user_id u, active_tickets s (u_user_id u))] \<and>
           (\<forall>v \<in> set (active_agents s).
              active_tickets s (u_user_id u) \<le> active_tickets s (u_user_id v))"
proof -
  let ?least = "least_rows s"
  let ?r = "?least ! (tie_choice s ?least mod length ?least)"
  have rows: "agent_rows s \<noteq> []"
    using assms by (simp add: agent_rows_def)
  then have ne: "?least \<noteq> []"
    by (rule least_rows_nonempty)
  then have "?r \<in> set ?least"
    by simp
  then have mem: "?r \<in> set (agent_rows s)"
    and least: "\<forall>r' \<in> set (agent_rows s). snd ?r \<le> snd r'"
    by (simp_all add: least_rows_iff)
  from mem obtain u where u: "u \<in> set (active_agents s)"
    and r: "?r = (u_user_id u, active_tickets s (u_user_id u))"
    by (auto simp add: agent_rows_def)
  have sel: "select_agents s = [(u_user_id u, active_tickets s (u_user_id u))]"
    using ne r by (simp add: select_agents_def)
  have "active_tickets s (u_user_id u) \<le> active_tickets s (u_user_id v)"
    if "v \<in> set (active_agents s)" for v
  proof -
    from that have "(u_user_id v, active_tickets s (u_user_id v)) \<in> set (agent_rows s)"
      by (auto simp add: agent_rows_def)
    with least r show ?thesis by fastforce
  qed
  with u sel show ?thesis by blast
qed

text \<open>
  Every active support agent with the least load is one the query can return: the
  controller adds nothing that decides between them.
\<close>

lemma select_agents_any:
  assumes "v \<in> set (active_agents s)"
    and "\<forall>w \<in> set (active_agents s).
           active_tickets s (u_user_id v) \<le> active_tickets s (u_user_id w)"
  shows "\<exists>c. select_agents (s\<lparr>tie_choice := c\<rparr>) =
               [(u_user_id v, active_tickets s (u_user_id v))]"
proof -
  let ?row = "(u_user_id v, active_tickets s (u_user_id v))"
  have "?row \<in> set (least_rows s)"
    using assms by (auto simp add: least_rows_iff agent_rows_def)
  then obtain i where i: "i < length (least_rows s)" and at: "least_rows s ! i = ?row"
    by (auto simp add: in_set_conv_nth)
  from i have "least_rows s \<noteq> []" by auto
  with i at have "select_agents (s\<lparr>tie_choice := (\<lambda>rows. i)\<rparr>) = [?row]"
    by (simp add: select_agents_def)
  then show ?thesis by blast
qed

text \<open>What the escalation writes when the agent query returns a row and no call throws.\<close>

lemma escalateToHuman_assigns:
  assumes "select_agents s = [(a, n)]"
    and "\<not> F EH_select_agents" and "\<not> F EH_update_ticket"
    and "\<not> F EH_insert_message" and "\<not> F EH_insert_escalation"
  shows "escalateToHuman F now ticketId reason s =
           s\<lparr>calls := calls s @ [EscalateToHuman ticketId reason],
             support_tickets := map (assign_ticket ticketId a now) (support_tickets s),
             chat_messages := chat_messages s @
               [\<lparr>cm_message_id = message_seq s, cm_ticket_id = ticketId, cm_sender_id = None,
                 cm_sender_type = ''ai_bot'', cm_message_text = joined_notice,
                 cm_is_internal_note = False, cm_is_ai_generated = True,
                 cm_ai_confidence_score = None, cm_created_at = now\<rparr>],
             message_seq := Suc (message_seq s),
             ticket_escalations := ticket_escalations s @
               [\<lparr>te_ticket_id = ticketId, te_escalated_from = None, te_escalated_to = a,
                 te_escalation_reason = reason, te_escalation_level = ''agent''\<rparr>]\<rparr>"
  using assms by (simp add: escalateToHuman_def Let_def insert_message_def)

text \<open>
  C2, as the code has it. When there is an active support agent, the agent query returns
  one row, for an active support agent whose load is least among the active support
  agents; when no call of the escalation throws, the tickets with the given identity
  are assigned to that agent and the escalation record names that agent. Among several
  agents with the least load the code decides nothing: the query has no second sort
  key, and each of them is the agent chosen under some choice of the store. So the
  agent chosen need not be the one with the lowest identity, and it is determined by
  the rows of the store only together with that choice.
\<close>

theorem escalateToHuman_least_loaded:
  assumes "active_agents s \<noteq> []"
  shows "(\<exists>u \<in> set (active_agents s).
            select_agents s = [(u_user_id u, active_tickets s (u_user_id u))] \<and>
            (\<forall>v \<in> set (active_agents s).
               active_tickets s (u_user_id u) \<le> active_tickets s (u_user_id v)) \<and>
            (\<not> F EH_select_agents \<and> \<not> F EH_update_ticket \<and>
             \<not> F EH_insert_message \<and> \<not> F EH_insert_escalation \<longrightarrow>
               support_tickets (escalateToHuman F now ticketId reason s) =
                 map (assign_ticket ticketId (u_user_id u) now) (support_tickets s) \<and>
               ticket_escalations (escalateToHuman F now ticketId reason s) =
                 ticket_escalations s @
                   [\<lparr>te_ticket_id = ticketId, te_escalated_from = None,
                     te_escalated_to = u_user_id u, te_escalation_reason = reason,
                     te_escalation_level = ''agent''\<rparr>])) \<and>
         (\<forall>v \<in> set (active_agents s).
            (\<forall>w \<in> set (active_agents s).
               active_tickets s (u_user_id v) \<le> active_tickets s (u_user_id w)) \<longrightarrow>
            (\<exists>c. select_agents (s\<lparr>tie_choice := c\<rparr>) =
                   [(u_user_id v, active_tickets s (u_user_id v))]))"
proof -
  from select_agents_some [OF assms] obtain u where mem: "u \<in> set (active_agents s)"
    and sel: "select_agents s = [(u_user_id u, active_tickets s (u_user_id u))]"
    and least: "\<forall>v \<in> set (active_agents s).
                  active_tickets s (u_user_id u) \<le> active_tickets s (u_user_id v)"
    by blast
  have esc: "\<not> F EH_select_agents \<and> \<not> F EH_update_ticket \<and>
            \<not> F EH_insert_message \<and> \<not> F EH_insert_escalation \<longrightarrow>
              support_tickets (escalateToHuman F now ticketId reason s) =
                map (assign_ticket ticketId (u_user_id u) now) (support_tickets s) \<and>
              ticket_escalations (escalateToHuman F now ticketId reason s) =
                ticket_escalations s @
                  [\<lparr>te_ticket_id = ticketId, te_escalated_from = None,
                    te_escalated_to = u_user_id u, te_escalation_reason = reason,
                    te_escalation_level = ''agent''\<rparr>]"
    by (simp add: escalateToHuman_assigns [OF sel])
  have any: "\<forall>v \<in> set (active_agents s).
            (\<forall>w \<in> set (active_agents s).
               active_tickets s (u_user_id v) \<le> active_tickets s (u_user_id w)) \<longrightarrow>
            (\<exists>c. select_agents (s\<lparr>tie_choice := c\<rparr>) =
                   [(u_user_id v, active_tickets s (u_user_id v))])"
    using select_agents_any by blast
  from mem sel least esc any show ?thesis by blast
qed

text \<open>
  The theorem at the store with loads 3, 1 and 2, where the agent with load 1 is
  selected, and at the store with two agents of load 0, where each of the two is the
  agent selected under some choice of the store.
\<close>

theorem escalateToHuman_least_loaded_witness:
  "active_agents loads_store \<noteq> [] \<and>
   map (\<lambda>u. (u_user_id u, active_tickets loads_store (u_user_id u))) (active_agents loads_store) =
     [(11, 3), (12, 1), (13, 2)] \<and>
   select_agents loads_store = [(12, 1)] \<and>
   map te_escalated_to
     (ticket_escalations
        (escalateToHuman no_faults 20 8 ''AI escalation recommended'' loads_store)) = [12] \<and>
   active_agents tie_store \<noteq> [] \<and>
   (\<exists>c. select_agents (tie_store\<lparr>tie_choice := c\<rparr>) = [(3, 0)]) \<and>
   (\<exists>c. select_agents (tie_store\<lparr>tie_choice := c\<rparr>) = [(7, 0)])"
proof -
  have ne: "active_agents loads_store \<noteq> []"
    by (simp add: loads_store_def empty_store_def demo_user_def active_agents_def)
  have agents: "active_agents loads_store =
      [demo_user 11 ''support_agent'' True, demo_user 12 ''support_agent'' True,
       demo_user 13 ''support_agent'' True]"
    by (simp add: loads_store_def empty_store_def demo_user_def active_agents_def)
  have loads: "active_tickets loads_store 11 = 3" "active_tickets loads_store 12 = 1"
    "active_tickets loads_store 13 = 2"
    by (simp_all add: loads_store_def empty_store_def demo_ticket_def active_tickets_def)
  have ids: "u_user_id (demo_user uid role active) = uid" for uid role active
    by (simp add: demo_user_def)
  have nf: "\<not> no_faults site" for site
    by (simp add: no_faults_def)
  have old: "ticket_escalations loads_store = []"
    by (simp add: loads_store_def empty_store_def)
  from escalateToHuman_least_loaded [OF ne, of no_faults 20 8 "''AI escalation recommended''"]
  have sel: "select_agents loads_store = [(12, 1)] \<and>
     map te_escalated_to
       (ticket_escalations
          (escalateToHuman no_faults 20 8 ''AI escalation recommended'' loads_store)) = [12]"
    by (auto simp add: agents loads ids nf old)
  have ne': "active_agents tie_store \<noteq> []"
    by (simp add: tie_store_def empty_store_def demo_user_def active_agents_def)
  have tie: "active_agents tie_store =
      [demo_user 3 ''support_agent'' True, demo_user 7 ''support_agent'' True]"
    by (simp add: tie_store_def empty_store_def demo_user_def active_agents_def)
  have idle: "active_tickets tie_store uid = 0" for uid
    by (simp add: tie_store_def empty_store_def active_tickets_def)
  from escalateToHuman_least_loaded [OF ne', of no_faults 20 8 "''AI escalation recommended''"]
  have both: "(\<exists>c. select_agents (tie_store\<lparr>tie_choice := c\<rparr>) = [(3, 0)]) \<and>
     (\<exists>c. select_agents (tie_store\<lparr>tie_choice := c\<rparr>) = [(7, 0)])"
    by (simp add: tie idle ids)
  from ne agents sel ne' both show ?thesis
    by (simp add: loads ids)
qed

text \<open>
  C2 as the spec states it fails: with the two active agents 3 and 7, both of load 0, in
  a store that returns the row of agent 7 first, the escalation selects agent 7, not
  the lowest identity 3.
\<close>

theorem lowest_identity_counterexample:
  "map u_user_id (active_agents tie_store) = [3, 7] \<and>
   active_tickets tie_store 3 = active_tickets tie_store 7 \<and>
   select_agents tie_store = [(7, 0)] \<and>
   map te_escalated_to
     (ticket_escalations (escalateToHuman no_faults 20 1 ''AI escalation recommended'' tie_store)) = [7]"
  by (simp add: tie_store_def empty_store_def demo_user_def no_faults_def select_agents_def
      least_rows_def agent_rows_def active_agents_def active_tickets_def escalateToHuman_def
      insert_message_def Let_def)

subsection \<open>Creating a ticket\<close>

text \<open>A valid request whose first five calls do not throw: the response and the store.\<close>

lemma createTicket_creates:
  assumes "creates F body"
  shows "createTicket F ai now usr body s =
           (Inr \<lparr>res_message = ''Support ticket created successfully'',
                  res_ticket_id = ticket_seq s,
                  res_ai_response = message (ai (str_of (description body)) (str_of (ticket_type body))),
                  res_escalated = needsHuman (ai (str_of (description body)) (str_of (ticket_type body))),
                  res_status = ''open''\<rparr>,
            complaint_step F (ticket_seq s) body
              (if needsHuman (ai (str_of (description body)) (str_of (ticket_type body)))
                  \<or> priority body = Some ''urgent''
               then escalateToHuman F now (ticket_seq s)
                      (auto_reason (ai (str_of (description body)) (str_of (ticket_type body))))
                      (primary_writes ai now usr body s)
               else primary_writes ai now usr body s))"
  using assms
  by (simp add: creates_def createTicket_def primary_writes_def Let_def)

text \<open>These are exactly the requests the handler answers with 201.\<close>

lemma createTicket_success:
  "(\<exists>r. fst (createTicket F ai now usr body s) = Inr r) \<longleftrightarrow> creates F body"
proof
  assume "\<exists>r. fst (createTicket F ai now usr body s) = Inr r"
  then show "creates F body"
    by (auto simp add: creates_def createTicket_def Let_def split: if_splits)
next
  assume "creates F body"
  then show "\<exists>r. fst (createTicket F ai now usr body s) = Inr r"
    by (simp add: createTicket_creates)
qed

lemma primary_writes_fields:
  "support_tickets (primary_writes ai now usr body s) =
     support_tickets s @ [new_ticket (ticket_seq s) now usr body]"
  "users (primary_writes ai now usr body s) = users s"
  "orders (primary_writes ai now usr body s) = orders s"
  "restaurant_complaints (primary_writes ai now usr body s) = restaurant_complaints s"
  "ticket_escalations (primary_writes ai now usr body s) = ticket_escalations s"
  "calls (primary_writes ai now usr body s) =
     calls s @ [GenerateResponse (str_of (description body)) (str_of (ticket_type body))]"
  by (simp_all add: primary_writes_def insert_message_def Let_def)

lemma escalateToHuman_frame:
  "users (escalateToHuman F now tid reason s) = users s"
  "orders (escalateToHuman F now tid reason s) = orders s"
  "restaurant_complaints (escalateToHuman F now tid reason s) = restaurant_complaints s"
  "ai_bot_logs (escalateToHuman F now tid reason s) = ai_bot_logs s"
  "ticket_seq (escalateToHuman F now tid reason s) = ticket_seq s"
  "calls (escalateToHuman F now tid reason s) = calls s @ [EscalateToHuman tid reason]"
  by (simp_all add: escalateToHuman_def insert_message_def Let_def split: list.splits)

lemma escalateToHuman_tickets:
  "support_tickets (escalateToHuman F now tid reason s) = support_tickets s \<or>
   (\<exists>a n rest. select_agents s = (a, n) # rest \<and> \<not> F EH_select_agents \<and> \<not> F EH_update_ticket \<and>
      support_tickets (escalateToHuman F now tid reason s) =
        map (assign_ticket tid a now) (support_tickets s))"
  by (auto simp add: escalateToHuman_def insert_message_def Let_def split: list.splits)

lemma complaint_step_frame:
  "support_tickets (complaint_step F tid body s) = support_tickets s"
  "chat_messages (complaint_step F tid body s) = chat_messages s"
  "ticket_escalations (complaint_step F tid body s) = ticket_escalations s"
  "calls (complaint_step F tid body s) = calls s"
  "ai_bot_logs (complaint_step F tid body s) = ai_bot_logs s"
  by (simp_all add: complaint_step_def split: option.splits)


lemma primary_writes_messages:
  "chat_messages (primary_writes ai now usr body s) =
     chat_messages s @
       [\<lparr>cm_message_id = message_seq s, cm_ticket_id = ticket_seq s,
         cm_sender_id = Some (user_id usr), cm_sender_type = ''customer'',
         cm_message_text = str_of (description body),
         cm_is_internal_note = False, cm_is_ai_generated = False,
         cm_ai_confidence_score = None, cm_created_at = now\<rparr>,
        \<lparr>cm_message_id = Suc (message_seq s), cm_ticket_id = ticket_seq s,
         cm_sender_id = None, cm_sender_type = ''ai_bot'',
         cm_message_text = message (ai (str_of (description body)) (str_of (ticket_type body))),
         cm_is_internal_note = False, cm_is_ai_generated = True,
         cm_ai_confidence_score =
           Some (confidence (ai (str_of (description body)) (str_of (ticket_type body)))),
         cm_created_at = now\<rparr>]"
  by (simp add: primary_writes_def insert_message_def Let_def)

lemma escalateToHuman_assigned_tickets:
  assumes "select_agents s = [(a, n)]" and "\<not> F EH_select_agents" and "\<not> F EH_update_ticket"
  shows "support_tickets (escalateToHuman F now tid reason s) =
           map (assign_ticket tid a now) (support_tickets s)"
  using assms by (simp add: escalateToHuman_def insert_message_def Let_def)

lemma assign_new_ticket:
  "assign_ticket tid a now (new_ticket tid now usr body) =
     (new_ticket tid now usr body)\<lparr>st_assigned_to := Some a, st_status := ''assigned''\<rparr>"
  by (simp add: assign_ticket_def new_ticket_def)

text \<open>
  The spec's scenario, run: an urgent ticket, a classifier that does not ask for a human,
  one active agent of load 0, no call throws.
\<close>

lemma urgent_scenario_run:
  "snd (createTicket no_faults calm_ai 20 student5 urgent_body one_agent_store) =
     one_agent_store
       \<lparr>support_tickets :=
          [(new_ticket 1 20 student5 urgent_body)
             \<lparr>st_assigned_to := Some 11, st_status := ''assigned''\<rparr>],
        ticket_seq := 2,
        chat_messages :=
          [\<lparr>cm_message_id = 1, cm_ticket_id = 1, cm_sender_id = Some 5,
            cm_sender_type = ''customer'', cm_message_text = ''I was charged twice'',
            cm_is_internal_note = False, cm_is_ai_generated = False,
            cm_ai_confidence_score = None, cm_created_at = 20\<rparr>,
           \<lparr>cm_message_id = 2, cm_ticket_id = 1, cm_sender_id = None,
            cm_sender_type = ''ai_bot'', cm_message_text = ''Please check your payment history.'',
            cm_is_internal_note = False, cm_is_ai_generated = True,
            cm_ai_confidence_score = Some (9 / 10), cm_created_at = 20\<rparr>,
           \<lparr>cm_message_id = 3, cm_ticket_id = 1, cm_sender_id = None,
            cm_sender_type = ''ai_bot'', cm_message_text = joined_notice,
            cm_is_internal_note = False, cm_is_ai_generated = True,
            cm_ai_confidence_score = None, cm_created_at = 20\<rparr>],
        message_seq := 4,
        calls := [GenerateResponse ''I was charged twice'' ''payment'',
                  EscalateToHuman 1 ''Auto-escalation: Urgent priority''],
        ai_bot_logs :=
          [\<lparr>abl_ticket_id = 1, abl_user_query = ''I was charged twice'',
            abl_ai_response = ''Please check your payment history.'',
            abl_intent_detected = ''payment'', abl_confidence_score = 9 / 10,
            abl_escalated_to_human = False\<rparr>],
        ticket_escalations :=
          [\<lparr>te_ticket_id = 1, te_escalated_from = None, te_escalated_to = 11,
            te_escalation_reason = ''Auto-escalation: Urgent priority'',
            te_escalation_level = ''agent''\<rparr>]\<rparr>"
  by (simp add: createTicket_def escalateToHuman_def complaint_step_def
        effectiveRestaurantId_def select_agents_def least_rows_def agent_rows_def
        active_agents_def active_tickets_def
        insert_message_def assign_ticket_def new_ticket_def auto_reason_def
        truthy_str_def truthy_id_def str_of_def or_null_def or_default_def
        no_faults_def calm_ai_def student5_def urgent_body_def one_agent_store_def
        empty_store_def demo_user_def Let_def)


text \<open>
  C1. For a valid request whose first five calls do not throw, the response is the 201
  response with the identity of the new ticket, the text of the classifier, the status
  \<open>open\<close>, and an escalation flag that is the verdict's \<open>needsHuman\<close>: the urgent priority,
  which triggers the escalation on line 50, is not part of the flag of line 95.
\<close>

theorem createTicket_response:
  assumes "creates F body"
  shows "fst (createTicket F ai now usr body s) =
           Inr \<lparr>res_message = ''Support ticket created successfully'',
                res_ticket_id = ticket_seq s,
                res_ai_response =
                  message (ai (str_of (description body)) (str_of (ticket_type body))),
                res_escalated =
                  needsHuman (ai (str_of (description body)) (str_of (ticket_type body))),
                res_status = ''open''\<rparr>"
  by (simp add: createTicket_creates [OF assms])


text \<open>
  The theorem in the spec's scenario: the escalation is called and assigns the ticket to
  agent 11, and the response says \<open>escalated = False\<close>.
\<close>

theorem createTicket_response_witness:
  "creates no_faults urgent_body \<and>
   fst (createTicket no_faults calm_ai 20 student5 urgent_body one_agent_store) =
     Inr \<lparr>res_message = ''Support ticket created successfully'', res_ticket_id = 1,
          res_ai_response = ''Please check your payment history.'',
          res_escalated = False, res_status = ''open''\<rparr> \<and>
   calls (snd (createTicket no_faults calm_ai 20 student5 urgent_body one_agent_store)) =
     [GenerateResponse ''I was charged twice'' ''payment'',
      EscalateToHuman 1 ''Auto-escalation: Urgent priority''] \<and>
   map st_assigned_to
     (support_tickets (snd (createTicket no_faults calm_ai 20 student5 urgent_body one_agent_store))) =
     [Some 11] \<and>
   map st_status
     (support_tickets (snd (createTicket no_faults calm_ai 20 student5 urgent_body one_agent_store))) =
     [''assigned'']"
proof -
  have c: "creates no_faults urgent_body"
    by (simp add: creates_def no_faults_def urgent_body_def truthy_str_def)
  have r: "fst (createTicket no_faults calm_ai 20 student5 urgent_body one_agent_store) =
     Inr \<lparr>res_message = ''Support ticket created successfully'', res_ticket_id = 1,
          res_ai_response = ''Please check your payment history.'',
          res_escalated = False, res_status = ''open''\<rparr>"
    using createTicket_response [OF c, of calm_ai 20 student5 one_agent_store]
    by (simp add: calm_ai_def one_agent_store_def empty_store_def)
  show ?thesis
    using c r by (simp add: urgent_scenario_run new_ticket_def)
qed



subsection \<open>The priority of a new ticket\<close>

lemma assign_ticket_priority: "st_priority (assign_ticket tid a now t) = st_priority t"
  by (simp add: assign_ticket_def)

lemma escalateToHuman_priorities:
  "map st_priority (support_tickets (escalateToHuman F now tid reason s)) =
     map st_priority (support_tickets s)"
  using escalateToHuman_tickets [of F now tid reason s]
  by (auto simp add: assign_ticket_priority cong: map_cong)

text \<open>
  C7, as the code has it. A created ticket is one new row, whose priority is the priority
  of the request when that is present and not empty, whatever its value, and
  \<open>medium\<close> when it is absent or empty; the priorities of the other rows stay.
\<close>

theorem createTicket_priority:
  assumes "creates F body"
  shows "map st_priority (support_tickets (snd (createTicket F ai now usr body s))) =
           map st_priority (support_tickets s) @
             [case priority body of
                None \<Rightarrow> ''medium''
              | Some p \<Rightarrow> if p = [] then ''medium'' else p]"
proof -
  have "st_priority (new_ticket (ticket_seq s) now usr body) =
          (case priority body of None \<Rightarrow> ''medium'' | Some p \<Rightarrow> if p = [] then ''medium'' else p)"
    by (simp add: new_ticket_def or_default_def split: option.splits)
  then show ?thesis
    by (simp add: createTicket_creates [OF assms] complaint_step_frame
        escalateToHuman_priorities primary_writes_fields)
qed


text \<open>The theorem for the priority \<open>urgent\<close> and for an absent priority.\<close>

theorem createTicket_priority_witness:
  "creates no_faults urgent_body \<and>
   creates no_faults (urgent_body\<lparr>priority := None\<rparr>) \<and>
   map st_priority
     (support_tickets (snd (createTicket no_faults calm_ai 20 student5 urgent_body loads_store))) =
     [''low'', ''high'', ''medium'', ''urgent'', ''low'', ''medium'', ''high'', ''medium'', ''urgent''] \<and>
   map st_priority
     (support_tickets
        (snd (createTicket no_faults calm_ai 20 student5 (urgent_body\<lparr>priority := None\<rparr>)
                loads_store))) =
     [''low'', ''high'', ''medium'', ''urgent'', ''low'', ''medium'', ''high'', ''medium'', ''medium'']"
proof -
  have c1: "creates no_faults urgent_body"
    by (simp add: creates_def no_faults_def urgent_body_def truthy_str_def)
  have c2: "creates no_faults (urgent_body\<lparr>priority := None\<rparr>)"
    by (simp add: creates_def no_faults_def urgent_body_def truthy_str_def)
  have old: "map st_priority (support_tickets loads_store) =
      [''low'', ''high'', ''medium'', ''urgent'', ''low'', ''medium'', ''high'', ''medium'']"
    by (simp add: loads_store_def empty_store_def demo_ticket_def)
  have p1: "priority urgent_body = Some ''urgent''"
    and p2: "priority (urgent_body\<lparr>priority := None\<rparr>) = None"
    by (simp_all add: urgent_body_def)
  from createTicket_priority [OF c1, of calm_ai 20 student5 loads_store]
    createTicket_priority [OF c2, of calm_ai 20 student5 loads_store]
  show ?thesis using c1 c2 by (simp add: old p1 p2)
qed


text \<open>
  C7 as the spec states it fails: a priority outside the four values is bound to the
  statement as it is, not replaced by \<open>medium\<close>.
\<close>

theorem invalid_priority_counterexample:
  "creates no_faults (urgent_body\<lparr>priority := Some ''critical''\<rparr>) \<and>
   fst (createTicket no_faults calm_ai 20 student5 (urgent_body\<lparr>priority := Some ''critical''\<rparr>)
          empty_store) =
     Inr \<lparr>res_message = ''Support ticket created successfully'', res_ticket_id = 1,
          res_ai_response = ''Please check your payment history.'',
          res_escalated = False, res_status = ''open''\<rparr> \<and>
   map st_priority
     (support_tickets
        (snd (createTicket no_faults calm_ai 20 student5
                (urgent_body\<lparr>priority := Some ''critical''\<rparr>) empty_store))) =
     [''critical'']"
  by (simp add: createTicket_def escalateToHuman_def complaint_step_def
        effectiveRestaurantId_def select_agents_def least_rows_def agent_rows_def
        active_agents_def active_tickets_def
        insert_message_def assign_ticket_def new_ticket_def auto_reason_def creates_def
        truthy_str_def truthy_id_def str_of_def or_null_def or_default_def
        no_faults_def calm_ai_def student5_def urgent_body_def
        empty_store_def Let_def)

subsection \<open>The complaint of a new ticket\<close>

lemma complaint_step_none:
  assumes "\<not> truthy_id (restaurant_id body)" and "\<not> truthy_id (order_id body)"
  shows "complaint_step F tid body s = s"
  using assms
  by (auto simp add: complaint_step_def effectiveRestaurantId_def truthy_id_def split: option.splits)

lemma complaint_step_explicit:
  assumes "restaurant_id body = Some r" and "r \<noteq> 0" and "\<not> F CT_insert_complaint"
  shows "restaurant_complaints (complaint_step F tid body s) =
           restaurant_complaints s @
             [\<lparr>rc_ticket_id = tid, rc_restaurant_id = r,
               rc_complaint_type = str_of (ticket_type body),
               rc_complaint_summary = complaint_summary body\<rparr>]"
  using assms
  by (simp add: complaint_step_def effectiveRestaurantId_def truthy_id_def)

lemma complaint_step_inferred:
  assumes "\<not> truthy_id (restaurant_id body)" and "truthy_id (order_id body)"
    and "\<not> F CT_select_order"
    and "filter (\<lambda>ord. Some (o_order_id ord) = order_id body) (orders s) = ord # rest"
    and "o_restaurant_id ord = Some r" and "r \<noteq> 0" and "\<not> F CT_insert_complaint"
  shows "restaurant_complaints (complaint_step F tid body s) =
           restaurant_complaints s @
             [\<lparr>rc_ticket_id = tid, rc_restaurant_id = r,
               rc_complaint_type = str_of (ticket_type body),
               rc_complaint_summary = complaint_summary body\<rparr>]"
  using assms
  by (simp add: complaint_step_def effectiveRestaurantId_def)

lemma complaint_step_at_most_one:
  "restaurant_complaints (complaint_step F tid body s) = restaurant_complaints s \<or>
   (\<exists>row. restaurant_complaints (complaint_step F tid body s) = restaurant_complaints s @ [row])"
  by (simp add: complaint_step_def split: option.splits)

text \<open>
  C8. For a valid request whose first five calls do not throw, the creation succeeds
  whatever the calls of the complaint step do. A request with neither restaurant nor
  order leaves \<open>restaurant_complaints\<close> as it was. A request with a restaurant, or
  without one and with an order whose first row in \<open>orders\<close> has a restaurant (the
  lookup not throwing), adds exactly one row when the insert does not throw: for the
  new ticket and that restaurant, with the type of the ticket as complaint type and
  \<^verbatim>\<open>subject || description || null\<close> as summary, which is the subject of a valid
  request. In every case at most one row is added.
\<close>

theorem createTicket_complaint:
  assumes "creates F body"
  shows "fst (createTicket F ai now usr body s) =
           Inr \<lparr>res_message = ''Support ticket created successfully'',
                res_ticket_id = ticket_seq s,
                res_ai_response =
                  message (ai (str_of (description body)) (str_of (ticket_type body))),
                res_escalated =
                  needsHuman (ai (str_of (description body)) (str_of (ticket_type body))),
                res_status = ''open''\<rparr> \<and>
         (\<not> truthy_id (restaurant_id body) \<and> \<not> truthy_id (order_id body) \<longrightarrow>
            restaurant_complaints (snd (createTicket F ai now usr body s)) =
              restaurant_complaints s) \<and>
         (restaurant_id body = Some r \<and> r \<noteq> 0 \<and> \<not> F CT_insert_complaint \<longrightarrow>
            restaurant_complaints (snd (createTicket F ai now usr body s)) =
              restaurant_complaints s @
                [\<lparr>rc_ticket_id = ticket_seq s, rc_restaurant_id = r,
                  rc_complaint_type = str_of (ticket_type body),
                  rc_complaint_summary = complaint_summary body\<rparr>]) \<and>
         (\<not> truthy_id (restaurant_id body) \<and> truthy_id (order_id body) \<and>
          \<not> F CT_select_order \<and>
          filter (\<lambda>ord. Some (o_order_id ord) = order_id body) (orders s) = ord # rest \<and>
          o_restaurant_id ord = Some r \<and> r \<noteq> 0 \<and> \<not> F CT_insert_complaint \<longrightarrow>
            restaurant_complaints (snd (createTicket F ai now usr body s)) =
              restaurant_complaints s @
                [\<lparr>rc_ticket_id = ticket_seq s, rc_restaurant_id = r,
                  rc_complaint_type = str_of (ticket_type body),
                  rc_complaint_summary = complaint_summary body\<rparr>]) \<and>
         complaint_summary body = subject body \<and>
         st_ticket_type (new_ticket (ticket_seq s) now usr body) = str_of (ticket_type body) \<and>
         (restaurant_complaints (snd (createTicket F ai now usr body s)) = restaurant_complaints s \<or>
          (\<exists>row. restaurant_complaints (snd (createTicket F ai now usr body s)) =
                   restaurant_complaints s @ [row]))"
proof -
  let ?v = "ai (str_of (description body)) (str_of (ticket_type body))"
  let ?pre = "if needsHuman ?v \<or> priority body = Some ''urgent''
              then escalateToHuman F now (ticket_seq s) (auto_reason ?v)
                     (primary_writes ai now usr body s)
              else primary_writes ai now usr body s"
  have st: "snd (createTicket F ai now usr body s) = complaint_step F (ticket_seq s) body ?pre"
    by (simp add: createTicket_creates [OF assms])
  have ord: "orders ?pre = orders s"
    by (simp add: escalateToHuman_frame primary_writes_fields)
  have rc: "restaurant_complaints ?pre = restaurant_complaints s"
    by (simp add: escalateToHuman_frame primary_writes_fields)
  have resp: "fst (createTicket F ai now usr body s) =
           Inr \<lparr>res_message = ''Support ticket created successfully'',
                res_ticket_id = ticket_seq s,
                res_ai_response = message ?v, res_escalated = needsHuman ?v,
                res_status = ''open''\<rparr>"
    by (simp add: createTicket_creates [OF assms])
  have none: "\<not> truthy_id (restaurant_id body) \<and> \<not> truthy_id (order_id body) \<longrightarrow>
            restaurant_complaints (snd (createTicket F ai now usr body s)) =
              restaurant_complaints s"
    by (simp add: st complaint_step_none rc)
  have explicit: "restaurant_id body = Some r \<and> r \<noteq> 0 \<and> \<not> F CT_insert_complaint \<longrightarrow>
            restaurant_complaints (snd (createTicket F ai now usr body s)) =
              restaurant_complaints s @
                [\<lparr>rc_ticket_id = ticket_seq s, rc_restaurant_id = r,
                  rc_complaint_type = str_of (ticket_type body),
                  rc_complaint_summary = complaint_summary body\<rparr>]"
    by (simp add: st complaint_step_explicit rc)
  have inferred: "\<not> truthy_id (restaurant_id body) \<and> truthy_id (order_id body) \<and>
          \<not> F CT_select_order \<and>
          filter (\<lambda>ord. Some (o_order_id ord) = order_id body) (orders s) = ord # rest \<and>
          o_restaurant_id ord = Some r \<and> r \<noteq> 0 \<and> \<not> F CT_insert_complaint \<longrightarrow>
            restaurant_complaints (snd (createTicket F ai now usr body s)) =
              restaurant_complaints s @
                [\<lparr>rc_ticket_id = ticket_seq s, rc_restaurant_id = r,
                  rc_complaint_type = str_of (ticket_type body),
                  rc_complaint_summary = complaint_summary body\<rparr>]"
  proof
    assume h: "\<not> truthy_id (restaurant_id body) \<and> truthy_id (order_id body) \<and>
          \<not> F CT_select_order \<and>
          filter (\<lambda>ord. Some (o_order_id ord) = order_id body) (orders s) = ord # rest \<and>
          o_restaurant_id ord = Some r \<and> r \<noteq> 0 \<and> \<not> F CT_insert_complaint"
    then have h1: "\<not> truthy_id (restaurant_id body)" and h2: "truthy_id (order_id body)"
      and h3: "\<not> F CT_select_order"
      and h4: "filter (\<lambda>ord. Some (o_order_id ord) = order_id body) (orders s) = ord # rest"
      and h5: "o_restaurant_id ord = Some r" and h6: "r \<noteq> 0"
      and h7: "\<not> F CT_insert_complaint"
      by blast+
    from h4 have h4': "filter (\<lambda>ord. Some (o_order_id ord) = order_id body) (orders ?pre) = ord # rest"
      by (simp only: ord)
    have "restaurant_complaints (complaint_step F (ticket_seq s) body ?pre) =
           restaurant_complaints ?pre @
             [\<lparr>rc_ticket_id = ticket_seq s, rc_restaurant_id = r,
               rc_complaint_type = str_of (ticket_type body),
               rc_complaint_summary = complaint_summary body\<rparr>]"
      by (rule complaint_step_inferred [OF h1 h2 h3 h4' h5 h6 h7])
    then show "restaurant_complaints (snd (createTicket F ai now usr body s)) =
              restaurant_complaints s @
                [\<lparr>rc_ticket_id = ticket_seq s, rc_restaurant_id = r,
                  rc_complaint_type = str_of (ticket_type body),
                  rc_complaint_summary = complaint_summary body\<rparr>]"
      by (simp only: st rc)
  qed
  have summary: "complaint_summary body = subject body"
    using assms by (simp add: creates_def complaint_summary_def)
  have most: "restaurant_complaints (snd (createTicket F ai now usr body s)) = restaurant_complaints s \<or>
          (\<exists>row. restaurant_complaints (snd (createTicket F ai now usr body s)) =
                   restaurant_complaints s @ [row])"
    using complaint_step_at_most_one [of F "ticket_seq s" body ?pre]
    by (simp only: st rc)
  have category: "st_ticket_type (new_ticket (ticket_seq s) now usr body) = str_of (ticket_type body)"
    by (simp add: new_ticket_def)
  from resp none explicit inferred summary category most show ?thesis by blast
qed

text \<open>
  The theorem for a request with order 40 of restaurant 9: one complaint row when no call
  throws, none and still the 201 response when the complaint insert throws; and for the
  request without restaurant and order: no row.
\<close>

theorem createTicket_complaint_witness:
  "creates no_faults order_body \<and>
   restaurant_complaints
     (snd (createTicket no_faults calm_ai 20 student5 order_body one_agent_store)) =
     [\<lparr>rc_ticket_id = 1, rc_restaurant_id = 9, rc_complaint_type = ''payment'',
       rc_complaint_summary = Some ''Double charge''\<rparr>] \<and>
   creates complaint_fault order_body \<and>
   fst (createTicket complaint_fault calm_ai 20 student5 order_body one_agent_store) =
     Inr \<lparr>res_message = ''Support ticket created successfully'', res_ticket_id = 1,
          res_ai_response = ''Please check your payment history.'',
          res_escalated = False, res_status = ''open''\<rparr> \<and>
   restaurant_complaints
     (snd (createTicket complaint_fault calm_ai 20 student5 order_body one_agent_store)) = [] \<and>
   creates no_faults urgent_body \<and>
   restaurant_complaints
     (snd (createTicket no_faults calm_ai 20 student5 urgent_body one_agent_store)) = []"
proof -
  have c1: "creates no_faults order_body"
    by (simp add: creates_def no_faults_def order_body_def urgent_body_def truthy_str_def)
  have c2: "creates complaint_fault order_body"
    by (simp add: creates_def complaint_fault_def order_body_def urgent_body_def truthy_str_def)
  have c3: "creates no_faults urgent_body"
    by (simp add: creates_def no_faults_def urgent_body_def truthy_str_def)
  have inputs:
    "\<not> truthy_id (restaurant_id order_body)" "truthy_id (order_id order_body)"
    "\<not> no_faults CT_select_order" "\<not> no_faults CT_insert_complaint"
    "filter (\<lambda>ord. Some (o_order_id ord) = order_id order_body) (orders one_agent_store) =
       [\<lparr>o_order_id = 40, o_restaurant_id = Some 9\<rparr>]"
    "str_of (ticket_type order_body) = ''payment''"
    "complaint_summary order_body = Some ''Double charge''"
    "restaurant_complaints one_agent_store = []" "ticket_seq one_agent_store = 1"
    "\<not> truthy_id (restaurant_id urgent_body)" "\<not> truthy_id (order_id urgent_body)"
    by (simp_all add: order_body_def urgent_body_def truthy_id_def truthy_str_def no_faults_def
        one_agent_store_def empty_store_def str_of_def complaint_summary_def)
  have v: "calm_ai q ty = \<lparr>message = ''Please check your payment history.'', confidence = 9 / 10,
      intent = ''payment'', needsHuman = False\<rparr>" for q ty
    by (simp add: calm_ai_def)
  have a: "restaurant_complaints
     (snd (createTicket no_faults calm_ai 20 student5 order_body one_agent_store)) =
     [\<lparr>rc_ticket_id = 1, rc_restaurant_id = 9, rc_complaint_type = ''payment'',
       rc_complaint_summary = Some ''Double charge''\<rparr>]"
    using createTicket_complaint [OF c1, of calm_ai 20 student5 one_agent_store 9
        "\<lparr>o_order_id = 40, o_restaurant_id = Some 9\<rparr>" "[]"] inputs
    by simp
  have b: "fst (createTicket complaint_fault calm_ai 20 student5 order_body one_agent_store) =
     Inr \<lparr>res_message = ''Support ticket created successfully'', res_ticket_id = 1,
          res_ai_response = ''Please check your payment history.'',
          res_escalated = False, res_status = ''open''\<rparr>"
    using createTicket_complaint [OF c2, of calm_ai 20 student5 one_agent_store 9
        "\<lparr>o_order_id = 40, o_restaurant_id = Some 9\<rparr>" "[]"] inputs
    by (simp add: v)
  have c: "restaurant_complaints
     (snd (createTicket complaint_fault calm_ai 20 student5 order_body one_agent_store)) = []"
    by (simp add: createTicket_creates [OF c2] complaint_step_def effectiveRestaurantId_def
        inputs escalateToHuman_frame primary_writes_fields complaint_fault_def
        split: option.splits)
  have d: "restaurant_complaints
     (snd (createTicket no_faults calm_ai 20 student5 urgent_body one_agent_store)) = []"
    using createTicket_complaint [OF c3, of calm_ai 20 student5 one_agent_store 9
        "\<lparr>o_order_id = 40, o_restaurant_id = Some 9\<rparr>" "[]"] inputs
    by simp
  from c1 c2 c3 a b c d show ?thesis by simp
qed

subsection \<open>The escalation of a new ticket\<close>

lemma escalateToHuman_idle:
  assumes "select_agents s = [] \<or> F EH_select_agents"
  shows "escalateToHuman F now tid reason s = s\<lparr>calls := calls s @ [EscalateToHuman tid reason]\<rparr>"
  using assms by (auto simp add: escalateToHuman_def Let_def)

text \<open>
  C3. Take a valid request whose first five calls do not throw, with a verdict that asks
  for a human or with priority \<open>urgent\<close>. The creation succeeds, whatever the calls of
  the escalation do. If there is an active support agent and neither the agent query
  nor the update of the escalation throws, the new ticket ends assigned to an active
  support agent, in status \<open>assigned\<close>. If there is no active support agent, the new
  ticket stays as inserted (status \<open>open\<close>, no agent), the messages of the ticket are
  the opening message and the message of the classifier, without the notice, and no
  escalation record is written.
\<close>

theorem createTicket_escalation:
  assumes "creates F body"
    and "needsHuman (ai (str_of (description body)) (str_of (ticket_type body)))
         \<or> priority body = Some ''urgent''"
  shows "(\<exists>r. fst (createTicket F ai now usr body s) = Inr r) \<and>
         (active_agents s \<noteq> [] \<and> \<not> F EH_select_agents \<and> \<not> F EH_update_ticket \<longrightarrow>
            (\<exists>u \<in> set (active_agents s).
               support_tickets (snd (createTicket F ai now usr body s)) =
                 map (assign_ticket (ticket_seq s) (u_user_id u) now) (support_tickets s) @
                   [(new_ticket (ticket_seq s) now usr body)
                      \<lparr>st_assigned_to := Some (u_user_id u), st_status := ''assigned''\<rparr>])) \<and>
         (active_agents s = [] \<longrightarrow>
            support_tickets (snd (createTicket F ai now usr body s)) =
              support_tickets s @ [new_ticket (ticket_seq s) now usr body] \<and>
            st_status (new_ticket (ticket_seq s) now usr body) = ''open'' \<and>
            st_assigned_to (new_ticket (ticket_seq s) now usr body) = None \<and>
            chat_messages (snd (createTicket F ai now usr body s)) =
              chat_messages s @
                [\<lparr>cm_message_id = message_seq s, cm_ticket_id = ticket_seq s,
                  cm_sender_id = Some (user_id usr), cm_sender_type = ''customer'',
                  cm_message_text = str_of (description body),
                  cm_is_internal_note = False, cm_is_ai_generated = False,
                  cm_ai_confidence_score = None, cm_created_at = now\<rparr>,
                 \<lparr>cm_message_id = Suc (message_seq s), cm_ticket_id = ticket_seq s,
                  cm_sender_id = None, cm_sender_type = ''ai_bot'',
                  cm_message_text =
                    message (ai (str_of (description body)) (str_of (ticket_type body))),
                  cm_is_internal_note = False, cm_is_ai_generated = True,
                  cm_ai_confidence_score =
                    Some (confidence (ai (str_of (description body)) (str_of (ticket_type body)))),
                  cm_created_at = now\<rparr>] \<and>
            ticket_escalations (snd (createTicket F ai now usr body s)) = ticket_escalations s)"
proof -
  let ?v = "ai (str_of (description body)) (str_of (ticket_type body))"
  let ?pw = "primary_writes ai now usr body s"
  let ?tid = "ticket_seq s"
  have st: "snd (createTicket F ai now usr body s) =
              complaint_step F ?tid body (escalateToHuman F now ?tid (auto_reason ?v) ?pw)"
    using assms(2) by (simp add: createTicket_creates [OF assms(1)])
  have ok: "\<exists>r. fst (createTicket F ai now usr body s) = Inr r"
    by (simp add: createTicket_creates [OF assms(1)])
  have agents: "active_agents ?pw = active_agents s"
    by (simp add: active_agents_def primary_writes_fields)
  have assigned: "active_agents s \<noteq> [] \<and> \<not> F EH_select_agents \<and> \<not> F EH_update_ticket \<longrightarrow>
            (\<exists>u \<in> set (active_agents s).
               support_tickets (snd (createTicket F ai now usr body s)) =
                 map (assign_ticket ?tid (u_user_id u) now) (support_tickets s) @
                   [(new_ticket ?tid now usr body)
                      \<lparr>st_assigned_to := Some (u_user_id u), st_status := ''assigned''\<rparr>])"
  proof
    assume h: "active_agents s \<noteq> [] \<and> \<not> F EH_select_agents \<and> \<not> F EH_update_ticket"
    from h have ne: "active_agents ?pw \<noteq> []" by (simp add: agents)
    from select_agents_some [OF ne] obtain u where mem: "u \<in> set (active_agents s)"
      and sel: "select_agents ?pw = [(u_user_id u, active_tickets ?pw (u_user_id u))]"
      by (auto simp add: agents)
    have "support_tickets (escalateToHuman F now ?tid (auto_reason ?v) ?pw) =
            map (assign_ticket ?tid (u_user_id u) now) (support_tickets ?pw)"
      using sel h by (intro escalateToHuman_assigned_tickets) simp_all
    then have "support_tickets (snd (createTicket F ai now usr body s)) =
                 map (assign_ticket ?tid (u_user_id u) now) (support_tickets s) @
                   [(new_ticket ?tid now usr body)
                      \<lparr>st_assigned_to := Some (u_user_id u), st_status := ''assigned''\<rparr>]"
      by (simp add: st complaint_step_frame primary_writes_fields assign_new_ticket)
    with mem show "\<exists>u \<in> set (active_agents s).
               support_tickets (snd (createTicket F ai now usr body s)) =
                 map (assign_ticket ?tid (u_user_id u) now) (support_tickets s) @
                   [(new_ticket ?tid now usr body)
                      \<lparr>st_assigned_to := Some (u_user_id u), st_status := ''assigned''\<rparr>]"
      by blast
  qed
  have idle: "active_agents s = [] \<longrightarrow>
            support_tickets (snd (createTicket F ai now usr body s)) =
              support_tickets s @ [new_ticket ?tid now usr body] \<and>
            st_status (new_ticket ?tid now usr body) = ''open'' \<and>
            st_assigned_to (new_ticket ?tid now usr body) = None \<and>
            chat_messages (snd (createTicket F ai now usr body s)) =
              chat_messages s @
                [\<lparr>cm_message_id = message_seq s, cm_ticket_id = ticket_seq s,
                  cm_sender_id = Some (user_id usr), cm_sender_type = ''customer'',
                  cm_message_text = str_of (description body),
                  cm_is_internal_note = False, cm_is_ai_generated = False,
                  cm_ai_confidence_score = None, cm_created_at = now\<rparr>,
                 \<lparr>cm_message_id = Suc (message_seq s), cm_ticket_id = ticket_seq s,
                  cm_sender_id = None, cm_sender_type = ''ai_bot'',
                  cm_message_text =
                    message (ai (str_of (description body)) (str_of (ticket_type body))),
                  cm_is_internal_note = False, cm_is_ai_generated = True,
                  cm_ai_confidence_score =
                    Some (confidence (ai (str_of (description body)) (str_of (ticket_type body)))),
                  cm_created_at = now\<rparr>] \<and>
            ticket_escalations (snd (createTicket F ai now usr body s)) = ticket_escalations s"
  proof
    assume "active_agents s = []"
    then have "select_agents ?pw = []"
      by (simp add: select_agents_empty agents)
    then have "escalateToHuman F now ?tid (auto_reason ?v) ?pw =
                 ?pw\<lparr>calls := calls ?pw @ [EscalateToHuman ?tid (auto_reason ?v)]\<rparr>"
      by (simp add: escalateToHuman_idle)
    then show "support_tickets (snd (createTicket F ai now usr body s)) =
              support_tickets s @ [new_ticket ?tid now usr body] \<and>
            st_status (new_ticket ?tid now usr body) = ''open'' \<and>
            st_assigned_to (new_ticket ?tid now usr body) = None \<and>
            chat_messages (snd (createTicket F ai now usr body s)) =
              chat_messages s @
                [\<lparr>cm_message_id = message_seq s, cm_ticket_id = ticket_seq s,
                  cm_sender_id = Some (user_id usr), cm_sender_type = ''customer'',
                  cm_message_text = str_of (description body),
                  cm_is_internal_note = False, cm_is_ai_generated = False,
                  cm_ai_confidence_score = None, cm_created_at = now\<rparr>,
                 \<lparr>cm_message_id = Suc (message_seq s), cm_ticket_id = ticket_seq s,
                  cm_sender_id = None, cm_sender_type = ''ai_bot'',
                  cm_message_text =
                    message (ai (str_of (description body)) (str_of (ticket_type body))),
                  cm_is_internal_note = False, cm_is_ai_generated = True,
                  cm_ai_confidence_score =
                    Some (confidence (ai (str_of (description body)) (str_of (ticket_type body)))),
                  cm_created_at = now\<rparr>] \<and>
            ticket_escalations (snd (createTicket F ai now usr body s)) = ticket_escalations s"
      by (simp add: st complaint_step_frame primary_writes_fields primary_writes_messages
          new_ticket_def)
  qed
  from ok assigned idle show ?thesis by blast
qed



text \<open>
  The theorem in the spec's scenario, in the same scenario without any agent, and in
  the scenario with an agent query that throws.
\<close>

theorem createTicket_escalation_witness:
  "creates no_faults urgent_body \<and> priority urgent_body = Some ''urgent'' \<and>
   active_agents one_agent_store \<noteq> [] \<and>
   map (\<lambda>t. (st_ticket_id t, st_status t, st_assigned_to t))
     (support_tickets (snd (createTicket no_faults calm_ai 20 student5 urgent_body one_agent_store))) =
     [(1, ''assigned'', Some 11)] \<and>
   active_agents empty_store = [] \<and>
   map (\<lambda>t. (st_ticket_id t, st_status t, st_assigned_to t))
     (support_tickets (snd (createTicket no_faults calm_ai 20 student5 urgent_body empty_store))) =
     [(1, ''open'', None)] \<and>
   map cm_sender_type
     (chat_messages (snd (createTicket no_faults calm_ai 20 student5 urgent_body empty_store))) =
     [''customer'', ''ai_bot''] \<and>
   ticket_escalations (snd (createTicket no_faults calm_ai 20 student5 urgent_body empty_store)) = [] \<and>
   creates escalation_fault urgent_body \<and>
   (\<exists>r. fst (createTicket escalation_fault calm_ai 20 student5 urgent_body one_agent_store) = Inr r)"
proof -
  have c: "creates no_faults urgent_body" and c': "creates escalation_fault urgent_body"
    by (simp_all add: creates_def no_faults_def escalation_fault_def urgent_body_def truthy_str_def)
  have u: "needsHuman (calm_ai (str_of (description urgent_body)) (str_of (ticket_type urgent_body)))
           \<or> priority urgent_body = Some ''urgent''"
    by (simp add: urgent_body_def)
  have agents: "active_agents one_agent_store = [demo_user 11 ''support_agent'' True]"
    "active_agents empty_store = []"
    by (simp_all add: active_agents_def one_agent_store_def empty_store_def demo_user_def)
  have facts: "\<not> no_faults EH_select_agents" "\<not> no_faults EH_update_ticket"
    "support_tickets one_agent_store = []" "ticket_seq one_agent_store = 1"
    "support_tickets empty_store = []" "ticket_seq empty_store = 1"
    "chat_messages empty_store = []" "ticket_escalations empty_store = []"
    "u_user_id (demo_user 11 ''support_agent'' True) = 11"
    by (simp_all add: no_faults_def one_agent_store_def empty_store_def demo_user_def)
  have nt: "st_ticket_id (new_ticket tid now usr body) = tid"
    "st_status (new_ticket tid now usr body) = ''open''"
    "st_assigned_to (new_ticket tid now usr body) = None" for tid now usr body
    by (simp_all add: new_ticket_def)
  from createTicket_escalation [of no_faults urgent_body calm_ai 20 student5 one_agent_store, OF c u]
    createTicket_escalation [of no_faults urgent_body calm_ai 20 student5 empty_store, OF c u]
    createTicket_escalation [of escalation_fault urgent_body calm_ai 20 student5 one_agent_store,
      OF c' u]
  show ?thesis
    using c c' by (simp add: agents facts nt urgent_body_def)
qed

subsection \<open>Who reads internal notes\<close>

lemma select_messages_hides_notes:
  assumes "\<not> staff userType" and "m \<in> set (select_messages userType tid s)"
  shows "cm_is_internal_note m = False"
  using assms by (simp add: select_messages_def)

lemma select_messages_staff:
  assumes "staff userType"
  shows "set (select_messages userType tid s) = {m \<in> set (chat_messages s). cm_ticket_id m = tid}"
  using assms by (auto simp add: select_messages_def)

lemma getTicketMessages_listing:
  assumes "getTicketMessages F usr tid s = Inr ms"
  shows "ms = select_messages (user_type usr) tid s"
  using assms by (auto simp add: getTicketMessages_def Let_def split: if_splits)

text \<open>
  C4. The message listing hides internal notes from every viewer who is not support
  agent, senior support or admin, and shows staff every message of the ticket. The
  debug read, which the route opens to every authenticated user, returns every
  message of the ticket, internal notes included, whatever the role of the caller.
\<close>

theorem internal_notes_visibility:
  "(getTicketMessages F usr tid s = Inr ms \<and> \<not> staff (user_type usr) \<longrightarrow>
      (\<forall>m \<in> set ms. cm_is_internal_note m = False)) \<and>
   (getTicketMessages F usr tid s = Inr ms \<and> staff (user_type usr) \<longrightarrow>
      set ms = {m \<in> set (chat_messages s). cm_ticket_id m = tid}) \<and>
   (debugTicket F usr tid s = Inr r \<longrightarrow>
      dbg_messages r =
        sort_key cm_created_at (filter (\<lambda>m. cm_ticket_id m = tid) (chat_messages s)) \<and>
      set (dbg_messages r) = {m \<in> set (chat_messages s). cm_ticket_id m = tid})"
proof -
  have a: "getTicketMessages F usr tid s = Inr ms \<and> \<not> staff (user_type usr) \<longrightarrow>
      (\<forall>m \<in> set ms. cm_is_internal_note m = False)"
    using getTicketMessages_listing select_messages_hides_notes by blast
  have b: "getTicketMessages F usr tid s = Inr ms \<and> staff (user_type usr) \<longrightarrow>
      set ms = {m \<in> set (chat_messages s). cm_ticket_id m = tid}"
    using getTicketMessages_listing select_messages_staff by blast
  have c: "debugTicket F usr tid s = Inr r \<longrightarrow>
      dbg_messages r =
        sort_key cm_created_at (filter (\<lambda>m. cm_ticket_id m = tid) (chat_messages s))"
    by (auto simp add: debugTicket_def split: if_splits list.splits)
  have d: "debugTicket F usr tid s = Inr r \<longrightarrow>
      set (dbg_messages r) = {m \<in> set (chat_messages s). cm_ticket_id m = tid}"
    using c by auto
  from a b c d show ?thesis by blast
qed


text \<open>
  The theorem on ticket 4, whose second message is an internal note: the listing gives
  its owner, student 5, the first message only and refuses student 6; the debug read
  gives both students both messages.
\<close>

theorem internal_notes_visibility_witness:
  "staff (user_type student5) = False \<and>
   map cm_message_id (chat_messages notes_store) = [8, 9] \<and>
   map cm_is_internal_note (chat_messages notes_store) = [False, True] \<and>
   map_sum id (map cm_message_id) (getTicketMessages no_faults student5 4 notes_store) = Inr [8] \<and>
   map_sum id (map cm_message_id) (getTicketMessages no_faults student6 4 notes_store) =
     Inl (Forbidden ''Access denied'') \<and>
   map_sum id (map cm_message_id) (getTicketMessages no_faults agent11 4 notes_store) = Inr [8, 9] \<and>
   map_sum id (\<lambda>r. map cm_message_id (dbg_messages r)) (debugTicket no_faults student5 4 notes_store) =
     Inr [8, 9] \<and>
   map_sum id (\<lambda>r. map cm_is_internal_note (dbg_messages r))
     (debugTicket no_faults student6 4 notes_store) = Inr [False, True]"
proof -
  have dbg: "debugTicket no_faults usr 4 notes_store =
      Inr \<lparr>dbg_ticket = demo_ticket 4 5 ''open'' None ''medium'' 10,
           dbg_messages = chat_messages notes_store, dbg_restaurant_complaints = []\<rparr>" for usr
    by (simp add: debugTicket_def no_faults_def notes_store_def empty_store_def demo_ticket_def)
  have msgs: "map cm_message_id (chat_messages notes_store) = [8, 9]"
    "map cm_is_internal_note (chat_messages notes_store) = [False, True]"
    by (simp_all add: notes_store_def empty_store_def)
  have g5: "getTicketMessages no_faults student5 4 notes_store = Inr [hd (chat_messages notes_store)]"
    by (simp add: getTicketMessages_def select_messages_def staff_def no_faults_def student5_def
        notes_store_def empty_store_def demo_ticket_def Let_def)
  have g6: "getTicketMessages no_faults student6 4 notes_store = Inl (Forbidden ''Access denied'')"
    by (simp add: getTicketMessages_def select_messages_def staff_def no_faults_def student6_def
        notes_store_def empty_store_def demo_ticket_def Let_def)
  have g11: "getTicketMessages no_faults agent11 4 notes_store = Inr (chat_messages notes_store)"
    by (simp add: getTicketMessages_def select_messages_def staff_def no_faults_def agent11_def
        notes_store_def empty_store_def demo_ticket_def Let_def)
  have h: "cm_message_id (hd (chat_messages notes_store)) = 8"
    by (simp add: notes_store_def empty_store_def)
  have ns: "staff (user_type student5) = False"
    by (simp add: staff_def student5_def)
  from internal_notes_visibility [of no_faults student5 4 notes_store
      "[hd (chat_messages notes_store)]"
      "\<lparr>dbg_ticket = demo_ticket 4 5 ''open'' None ''medium'' 10,
        dbg_messages = chat_messages notes_store, dbg_restaurant_complaints = []\<rparr>"]
  show ?thesis
    by (simp add: dbg msgs g5 g6 g11 h ns)
qed

subsection \<open>Posting a message\<close>

lemma post_writes_fields:
  "support_tickets (post_writes now usr tid body s) =
     map (touch_ticket (user_type usr) tid now) (support_tickets s)"
  "chat_messages (post_writes now usr tid body s) =
     chat_messages s @
       [\<lparr>cm_message_id = message_seq s, cm_ticket_id = tid, cm_sender_id = Some (user_id usr),
         cm_sender_type = or_default (senderTypeMap (user_type usr)) ''customer'',
         cm_message_text = str_of (message_text body),
         cm_is_internal_note = or_false (is_internal_note body),
         cm_is_ai_generated = False, cm_ai_confidence_score = None, cm_created_at = now\<rparr>]"
  "message_seq (post_writes now usr tid body s) = Suc (message_seq s)"
  "calls (post_writes now usr tid body s) = calls s"
  "ai_bot_logs (post_writes now usr tid body s) = ai_bot_logs s"
  "users (post_writes now usr tid body s) = users s"
  by (simp_all add: post_writes_def insert_message_def Let_def)

lemma followup_writes_fields:
  "support_tickets (followup_writes ai now tid body ticket s) = support_tickets s"
  "chat_messages (followup_writes ai now tid body ticket s) =
     chat_messages s @
       [\<lparr>cm_message_id = message_seq s, cm_ticket_id = tid, cm_sender_id = None,
         cm_sender_type = ''ai_bot'',
         cm_message_text = message (ai (str_of (message_text body)) (st_ticket_type ticket)),
         cm_is_internal_note = False, cm_is_ai_generated = True,
         cm_ai_confidence_score =
           Some (confidence (ai (str_of (message_text body)) (st_ticket_type ticket))),
         cm_created_at = now\<rparr>]"
  "message_seq (followup_writes ai now tid body ticket s) = Suc (message_seq s)"
  "calls (followup_writes ai now tid body ticket s) =
     calls s @ [GenerateResponse (str_of (message_text body)) (st_ticket_type ticket)]"
  "ai_bot_logs (followup_writes ai now tid body ticket s) =
     ai_bot_logs s @
       [\<lparr>abl_ticket_id = tid, abl_user_query = str_of (message_text body),
         abl_ai_response = message (ai (str_of (message_text body)) (st_ticket_type ticket)),
         abl_intent_detected = intent (ai (str_of (message_text body)) (st_ticket_type ticket)),
         abl_confidence_score =
           confidence (ai (str_of (message_text body)) (st_ticket_type ticket)),
         abl_escalated_to_human =
           needsHuman (ai (str_of (message_text body)) (st_ticket_type ticket))\<rparr>]"
  by (simp_all add: followup_writes_def insert_message_def Let_def)

lemma touch_ticket_keeps:
  "st_ticket_id (touch_ticket role tid now t) = st_ticket_id t"
  "st_assigned_to (touch_ticket role tid now t) = st_assigned_to t"
  "st_ticket_type (touch_ticket role tid now t) = st_ticket_type t"
  by (simp_all add: touch_ticket_def)

lemma filter_touched:
  "filter (\<lambda>t. st_ticket_id t = tid) (map (touch_ticket role tid' now) ts) =
     map (touch_ticket role tid' now) (filter (\<lambda>t. st_ticket_id t = tid) ts)"
  by (induction ts) (simp_all add: touch_ticket_keeps)

text \<open>The row read on line 215 is the row of the store before the post, touched.\<close>

lemma unassigned_ticket_post_writes:
  "unassigned_ticket tid (post_writes now usr tid' body s) =
     map_option (touch_ticket (user_type usr) tid' now) (unassigned_ticket tid s)"
  by (cases "filter (\<lambda>t. st_ticket_id t = tid) (support_tickets s)")
    (simp_all add: unassigned_ticket_def post_writes_fields filter_touched touch_ticket_keeps)

text \<open>The three ways in which a post succeeds.\<close>

lemma sendMessage_staff:
  assumes "has_text body" and "\<not> F SM_insert_message" and "\<not> F SM_update_ticket"
    and "user_type usr \<noteq> ''student''"
  shows "sendMessage F ai now usr tid body s =
           (Inr \<lparr>sent_message = ''Message sent successfully'', message_id = message_seq s\<rparr>,
            post_writes now usr tid body s)"
  using assms by (simp add: sendMessage_def has_text_def post_writes_def Let_def)

lemma sendMessage_assigned:
  assumes "has_text body" and "\<not> F SM_insert_message" and "\<not> F SM_update_ticket"
    and "user_type usr = ''student''" and "\<not> F SM_select_ticket"
    and "unassigned_ticket tid s = None"
  shows "sendMessage F ai now usr tid body s =
           (Inr \<lparr>sent_message = ''Message sent successfully'', message_id = message_seq s\<rparr>,
            post_writes now usr tid body s)"
proof -
  have "unassigned_ticket tid (post_writes now usr tid body s) = None"
    using assms(6) by (simp add: unassigned_ticket_post_writes)
  then show ?thesis
    using assms(1-5)
    by (auto simp add: sendMessage_def has_text_def unassigned_ticket_def post_writes_def Let_def
        split: list.splits if_splits)
qed

lemma sendMessage_unassigned:
  assumes "has_text body" and "\<not> F SM_insert_message" and "\<not> F SM_update_ticket"
    and "user_type usr = ''student''" and "\<not> F SM_select_ticket"
    and "unassigned_ticket tid s = Some ticket"
    and "\<not> F SM_generate" and "\<not> F SM_insert_ai_message" and "\<not> F SM_insert_ai_log"
  shows "sendMessage F ai now usr tid body s =
           (Inr \<lparr>sent_message = ''Message sent successfully'', message_id = message_seq s\<rparr>,
            if needsHuman (ai (str_of (message_text body)) (st_ticket_type ticket))
            then escalateToHuman F now tid ''AI escalation recommended''
                   (followup_writes ai now tid body ticket (post_writes now usr tid body s))
            else followup_writes ai now tid body ticket (post_writes now usr tid body s))"
proof -
  have "unassigned_ticket tid (post_writes now usr tid body s) =
          Some (touch_ticket (user_type usr) tid now ticket)"
    using assms(6) by (simp add: unassigned_ticket_post_writes)
  then show ?thesis
    using assms(1-5,7-9)
    by (auto simp add: sendMessage_def has_text_def unassigned_ticket_def post_writes_def
        followup_writes_def touch_ticket_keeps Let_def split: list.splits if_splits)
qed

text \<open>A post that succeeds is one of the three.\<close>

lemma sendMessage_success:
  assumes "fst (sendMessage F ai now usr tid body s) = Inr r"
  shows "has_text body \<and> \<not> F SM_insert_message \<and> \<not> F SM_update_ticket \<and>
         (user_type usr = ''student'' \<longrightarrow>
            \<not> F SM_select_ticket \<and>
            (unassigned_ticket tid s \<noteq> None \<longrightarrow>
               \<not> F SM_generate \<and> \<not> F SM_insert_ai_message \<and> \<not> F SM_insert_ai_log))"
proof -
  have a: "has_text body \<and> \<not> F SM_insert_message \<and> \<not> F SM_update_ticket"
    using assms by (auto simp add: sendMessage_def has_text_def Let_def split: if_splits)
  have b: "\<not> F SM_select_ticket" if "user_type usr = ''student''"
    using assms that by (auto simp add: sendMessage_def has_text_def Let_def split: if_splits)
  have c: "\<not> F SM_generate \<and> \<not> F SM_insert_ai_message \<and> \<not> F SM_insert_ai_log"
    if "user_type usr = ''student''" and "unassigned_ticket tid s \<noteq> None"
  proof -
    from that(2) obtain ticket where "unassigned_ticket tid s = Some ticket" by auto
    then have "unassigned_ticket tid (post_writes now usr tid body s) =
          Some (touch_ticket (user_type usr) tid now ticket)"
      by (simp add: unassigned_ticket_post_writes)
    then show ?thesis
      using assms that(1) a b
      by (auto simp add: sendMessage_def has_text_def unassigned_ticket_def post_writes_def
          Let_def split: list.splits if_splits)
  qed
  from a b c show ?thesis by blast
qed


lemma escalateToHuman_messages:
  "chat_messages (escalateToHuman F now tid reason s) = chat_messages s \<or>
   chat_messages (escalateToHuman F now tid reason s) =
     chat_messages s @
       [\<lparr>cm_message_id = message_seq s, cm_ticket_id = tid, cm_sender_id = None,
         cm_sender_type = ''ai_bot'', cm_message_text = joined_notice,
         cm_is_internal_note = False, cm_is_ai_generated = True,
         cm_ai_confidence_score = None, cm_created_at = now\<rparr>]"
  by (simp add: escalateToHuman_def insert_message_def Let_def split: list.splits)

text \<open>
  C6. Take a post that succeeds. When the sender is a student and the ticket exists
  without an assigned agent, the handler calls the classifier once, on the text and the
  type of the ticket, then the escalation exactly when the verdict asks for a human; it
  appends one classifier log entry and, after the message of the sender, the message
  of the classifier (after which only the notice of an escalation can follow). In
  every other case it calls neither, and writes nothing beyond the message of the sender
  and the update of the ticket.
\<close>

theorem sendMessage_classifier:
  assumes "fst (sendMessage F ai now usr tid body s) = Inr r"
  shows "(user_type usr = ''student'' \<and> unassigned_ticket tid s = Some ticket \<longrightarrow>
            calls (snd (sendMessage F ai now usr tid body s)) =
              calls s @
                GenerateResponse (str_of (message_text body)) (st_ticket_type ticket) #
                (if needsHuman (ai (str_of (message_text body)) (st_ticket_type ticket))
                 then [EscalateToHuman tid ''AI escalation recommended''] else []) \<and>
            ai_bot_logs (snd (sendMessage F ai now usr tid body s)) =
              ai_bot_logs s @
                [\<lparr>abl_ticket_id = tid, abl_user_query = str_of (message_text body),
                  abl_ai_response =
                    message (ai (str_of (message_text body)) (st_ticket_type ticket)),
                  abl_intent_detected =
                    intent (ai (str_of (message_text body)) (st_ticket_type ticket)),
                  abl_confidence_score =
                    confidence (ai (str_of (message_text body)) (st_ticket_type ticket)),
                  abl_escalated_to_human =
                    needsHuman (ai (str_of (message_text body)) (st_ticket_type ticket))\<rparr>] \<and>
            (\<exists>notice.
               chat_messages (snd (sendMessage F ai now usr tid body s)) =
                 chat_messages (post_writes now usr tid body s) @
                   \<lparr>cm_message_id = Suc (message_seq s), cm_ticket_id = tid, cm_sender_id = None,
                     cm_sender_type = ''ai_bot'',
                     cm_message_text =
                       message (ai (str_of (message_text body)) (st_ticket_type ticket)),
                     cm_is_internal_note = False, cm_is_ai_generated = True,
                     cm_ai_confidence_score =
                       Some (confidence (ai (str_of (message_text body)) (st_ticket_type ticket))),
                     cm_created_at = now\<rparr> # notice \<and>
               (notice = [] \<or>
                needsHuman (ai (str_of (message_text body)) (st_ticket_type ticket)) \<and>
                notice =
                  [\<lparr>cm_message_id = Suc (Suc (message_seq s)), cm_ticket_id = tid,
                    cm_sender_id = None, cm_sender_type = ''ai_bot'',
                    cm_message_text = joined_notice,
                    cm_is_internal_note = False, cm_is_ai_generated = True,
                    cm_ai_confidence_score = None, cm_created_at = now\<rparr>]))) \<and>
         (user_type usr \<noteq> ''student'' \<or> unassigned_ticket tid s = None \<longrightarrow>
            snd (sendMessage F ai now usr tid body s) = post_writes now usr tid body s \<and>
            calls (snd (sendMessage F ai now usr tid body s)) = calls s \<and>
            ai_bot_logs (snd (sendMessage F ai now usr tid body s)) = ai_bot_logs s) \<and>
         chat_messages (post_writes now usr tid body s) =
           chat_messages s @
             [\<lparr>cm_message_id = message_seq s, cm_ticket_id = tid, cm_sender_id = Some (user_id usr),
               cm_sender_type = or_default (senderTypeMap (user_type usr)) ''customer'',
               cm_message_text = str_of (message_text body),
               cm_is_internal_note = or_false (is_internal_note body),
               cm_is_ai_generated = False, cm_ai_confidence_score = None, cm_created_at = now\<rparr>]"
proof -
  note ok = sendMessage_success [OF assms]
  let ?v = "ai (str_of (message_text body)) (st_ticket_type ticket)"
  let ?pw = "post_writes now usr tid body s"
  let ?fw = "followup_writes ai now tid body ticket ?pw"
  let ?s' = "snd (sendMessage F ai now usr tid body s)"
  have quiet: "user_type usr \<noteq> ''student'' \<or> unassigned_ticket tid s = None \<longrightarrow>
            ?s' = ?pw \<and> calls ?s' = calls s \<and> ai_bot_logs ?s' = ai_bot_logs s"
  proof
    assume "user_type usr \<noteq> ''student'' \<or> unassigned_ticket tid s = None"
    then have "?s' = ?pw"
      using ok sendMessage_staff [of body F usr ai now tid s]
        sendMessage_assigned [of body F usr tid s ai now]
      by (cases "user_type usr = ''student''") auto
    then show "?s' = ?pw \<and> calls ?s' = calls s \<and> ai_bot_logs ?s' = ai_bot_logs s"
      by (simp add: post_writes_fields)
  qed
  have loud: "user_type usr = ''student'' \<and> unassigned_ticket tid s = Some ticket \<longrightarrow>
            calls ?s' =
              calls s @ GenerateResponse (str_of (message_text body)) (st_ticket_type ticket) #
                (if needsHuman ?v then [EscalateToHuman tid ''AI escalation recommended''] else []) \<and>
            ai_bot_logs ?s' =
              ai_bot_logs s @
                [\<lparr>abl_ticket_id = tid, abl_user_query = str_of (message_text body),
                  abl_ai_response = message ?v, abl_intent_detected = intent ?v,
                  abl_confidence_score = confidence ?v,
                  abl_escalated_to_human = needsHuman ?v\<rparr>] \<and>
            (\<exists>notice.
               chat_messages ?s' =
                 chat_messages ?pw @
                   \<lparr>cm_message_id = Suc (message_seq s), cm_ticket_id = tid, cm_sender_id = None,
                     cm_sender_type = ''ai_bot'', cm_message_text = message ?v,
                     cm_is_internal_note = False, cm_is_ai_generated = True,
                     cm_ai_confidence_score = Some (confidence ?v),
                     cm_created_at = now\<rparr> # notice \<and>
               (notice = [] \<or>
                needsHuman ?v \<and>
                notice =
                  [\<lparr>cm_message_id = Suc (Suc (message_seq s)), cm_ticket_id = tid,
                    cm_sender_id = None, cm_sender_type = ''ai_bot'',
                    cm_message_text = joined_notice,
                    cm_is_internal_note = False, cm_is_ai_generated = True,
                    cm_ai_confidence_score = None, cm_created_at = now\<rparr>]))"
  proof
    assume h: "user_type usr = ''student'' \<and> unassigned_ticket tid s = Some ticket"
    then have st: "?s' = (if needsHuman ?v
                         then escalateToHuman F now tid ''AI escalation recommended'' ?fw
                         else ?fw)"
      using ok sendMessage_unassigned [of body F usr tid s ticket ai now] by simp
    show "calls ?s' =
              calls s @ GenerateResponse (str_of (message_text body)) (st_ticket_type ticket) #
                (if needsHuman ?v then [EscalateToHuman tid ''AI escalation recommended''] else []) \<and>
            ai_bot_logs ?s' =
              ai_bot_logs s @
                [\<lparr>abl_ticket_id = tid, abl_user_query = str_of (message_text body),
                  abl_ai_response = message ?v, abl_intent_detected = intent ?v,
                  abl_confidence_score = confidence ?v,
                  abl_escalated_to_human = needsHuman ?v\<rparr>] \<and>
            (\<exists>notice.
               chat_messages ?s' =
                 chat_messages ?pw @
                   \<lparr>cm_message_id = Suc (message_seq s), cm_ticket_id = tid, cm_sender_id = None,
                     cm_sender_type = ''ai_bot'', cm_message_text = message ?v,
                     cm_is_internal_note = False, cm_is_ai_generated = True,
                     cm_ai_confidence_score = Some (confidence ?v),
                     cm_created_at = now\<rparr> # notice \<and>
               (notice = [] \<or>
                needsHuman ?v \<and>
                notice =
                  [\<lparr>cm_message_id = Suc (Suc (message_seq s)), cm_ticket_id = tid,
                    cm_sender_id = None, cm_sender_type = ''ai_bot'',
                    cm_message_text = joined_notice,
                    cm_is_internal_note = False, cm_is_ai_generated = True,
                    cm_ai_confidence_score = None, cm_created_at = now\<rparr>]))"
    proof (cases "needsHuman ?v")
      case False
      then show ?thesis
        by (simp add: st followup_writes_fields post_writes_fields)
    next
      case True
      have m: "message_seq ?fw = Suc (Suc (message_seq s))"
        by (simp add: followup_writes_fields post_writes_fields)
      from True escalateToHuman_messages [of F now tid "''AI escalation recommended''" ?fw]
      show ?thesis
        by (auto simp add: st m escalateToHuman_frame followup_writes_fields post_writes_fields)
    qed
  qed
  have own: "chat_messages ?pw =
           chat_messages s @
             [\<lparr>cm_message_id = message_seq s, cm_ticket_id = tid, cm_sender_id = Some (user_id usr),
               cm_sender_type = or_default (senderTypeMap (user_type usr)) ''customer'',
               cm_message_text = str_of (message_text body),
               cm_is_internal_note = or_false (is_internal_note body),
               cm_is_ai_generated = False, cm_ai_confidence_score = None, cm_created_at = now\<rparr>]"
    by (simp add: post_writes_fields)
  from loud quiet own show ?thesis by blast
qed



text \<open>A post on ticket 4, by its owner and by agent 11, with a classifier that asks for a human.\<close>

lemma hello_student_run:
  "fst (sendMessage no_faults worried_ai 20 student5 4 hello notes_store) =
     Inr \<lparr>sent_message = ''Message sent successfully'', message_id = 10\<rparr>"
  "map (\<lambda>m. (cm_message_id m, cm_sender_type m))
     (chat_messages (snd (sendMessage no_faults worried_ai 20 student5 4 hello notes_store))) =
     [(8, ''customer''), (9, ''support_agent''), (10, ''customer''), (11, ''ai_bot''),
      (12, ''ai_bot'')]"
  "map (\<lambda>t. (st_ticket_id t, st_status t, st_assigned_to t, st_updated_at t))
     (support_tickets (snd (sendMessage no_faults worried_ai 20 student5 4 hello notes_store))) =
     [(4, ''assigned'', Some 11, 20)]"
  by (simp_all add: sendMessage_def escalateToHuman_def select_agents_def least_rows_def
      agent_rows_def active_agents_def
      active_tickets_def insert_message_def assign_ticket_def touch_ticket_def
      truthy_str_def truthy_id_def str_of_def or_default_def or_false_def senderTypeMap_def
      trim_def is_space_def no_faults_def worried_ai_def student5_def hello_def
      notes_store_def empty_store_def demo_user_def demo_ticket_def Let_def)

lemma hello_agent_run:
  "fst (sendMessage no_faults worried_ai 20 agent11 4 hello notes_store) =
     Inr \<lparr>sent_message = ''Message sent successfully'', message_id = 10\<rparr>"
  "map (\<lambda>m. (cm_message_id m, cm_sender_type m))
     (chat_messages (snd (sendMessage no_faults worried_ai 20 agent11 4 hello notes_store))) =
     [(8, ''customer''), (9, ''support_agent''), (10, ''support_agent'')]"
  "map (\<lambda>t. (st_ticket_id t, st_status t, st_assigned_to t, st_updated_at t))
     (support_tickets (snd (sendMessage no_faults worried_ai 20 agent11 4 hello notes_store))) =
     [(4, ''in_progress'', None, 20)]"
  by (simp_all add: sendMessage_def insert_message_def touch_ticket_def
      truthy_str_def truthy_id_def str_of_def or_default_def or_false_def senderTypeMap_def
      trim_def is_space_def no_faults_def worried_ai_def agent11_def hello_def
      notes_store_def empty_store_def demo_user_def demo_ticket_def Let_def)

text \<open>
  The theorem on these two posts: for the student the classifier and the escalation are
  called, for the agent neither.
\<close>

theorem sendMessage_classifier_witness:
  "fst (sendMessage no_faults worried_ai 20 student5 4 hello notes_store) =
     Inr \<lparr>sent_message = ''Message sent successfully'', message_id = 10\<rparr> \<and>
   unassigned_ticket 4 notes_store = Some (demo_ticket 4 5 ''open'' None ''medium'' 10) \<and>
   calls (snd (sendMessage no_faults worried_ai 20 student5 4 hello notes_store)) =
     [GenerateResponse ''Any news?'' ''payment'', EscalateToHuman 4 ''AI escalation recommended''] \<and>
   map abl_user_query
     (ai_bot_logs (snd (sendMessage no_faults worried_ai 20 student5 4 hello notes_store))) =
     [''Any news?''] \<and>
   map (\<lambda>m. (cm_message_id m, cm_sender_type m))
     (chat_messages (snd (sendMessage no_faults worried_ai 20 student5 4 hello notes_store))) =
     [(8, ''customer''), (9, ''support_agent''), (10, ''customer''), (11, ''ai_bot''),
      (12, ''ai_bot'')] \<and>
   fst (sendMessage no_faults worried_ai 20 agent11 4 hello notes_store) =
     Inr \<lparr>sent_message = ''Message sent successfully'', message_id = 10\<rparr> \<and>
   calls (snd (sendMessage no_faults worried_ai 20 agent11 4 hello notes_store)) = [] \<and>
   ai_bot_logs (snd (sendMessage no_faults worried_ai 20 agent11 4 hello notes_store)) = [] \<and>
   map (\<lambda>m. (cm_message_id m, cm_sender_type m))
     (chat_messages (snd (sendMessage no_faults worried_ai 20 agent11 4 hello notes_store))) =
     [(8, ''customer''), (9, ''support_agent''), (10, ''support_agent'')]"
proof -
  have u: "unassigned_ticket 4 notes_store = Some (demo_ticket 4 5 ''open'' None ''medium'' 10)"
    by (simp add: unassigned_ticket_def notes_store_def empty_store_def demo_ticket_def
        truthy_id_def)
  have facts: "user_type student5 = ''student''" "user_type agent11 \<noteq> ''student''"
    "str_of (message_text hello) = ''Any news?''"
    "st_ticket_type (demo_ticket 4 5 ''open'' None ''medium'' 10) = ''payment''"
    "calls notes_store = []" "ai_bot_logs notes_store = []"
    "needsHuman (worried_ai q ty) = True"
    for q ty
    by (simp_all add: student5_def agent11_def hello_def str_of_def demo_ticket_def
        notes_store_def empty_store_def worried_ai_def)
  note student = sendMessage_classifier [OF hello_student_run(1),
      of "demo_ticket 4 5 ''open'' None ''medium'' 10"]
  note agent = sendMessage_classifier [OF hello_agent_run(1), of undefined]
  have a: "calls (snd (sendMessage no_faults worried_ai 20 student5 4 hello notes_store)) =
     [GenerateResponse ''Any news?'' ''payment'', EscalateToHuman 4 ''AI escalation recommended'']"
    using student by (simp add: u facts)
  have b: "map abl_user_query
     (ai_bot_logs (snd (sendMessage no_faults worried_ai 20 student5 4 hello notes_store))) =
     [''Any news?'']"
    using student by (simp add: u facts)
  have c: "calls (snd (sendMessage no_faults worried_ai 20 agent11 4 hello notes_store)) = []"
    "ai_bot_logs (snd (sendMessage no_faults worried_ai 20 agent11 4 hello notes_store)) = []"
  proof -
    have "calls (snd (sendMessage no_faults worried_ai 20 agent11 4 hello notes_store)) =
            calls notes_store \<and>
          ai_bot_logs (snd (sendMessage no_faults worried_ai 20 agent11 4 hello notes_store)) =
            ai_bot_logs notes_store"
      using agent facts(2) by blast
    then show
      "calls (snd (sendMessage no_faults worried_ai 20 agent11 4 hello notes_store)) = []"
      "ai_bot_logs (snd (sendMessage no_faults worried_ai 20 agent11 4 hello notes_store)) = []"
      by (simp_all add: facts)
  qed
  from a b c u show ?thesis
    by (simp add: hello_student_run hello_agent_run)
qed

subsection \<open>The status of a ticket after a post\<close>

lemma sendMessage_tickets:
  assumes "fst (sendMessage F ai now usr tid body s) = Inr r"
  shows "support_tickets (snd (sendMessage F ai now usr tid body s)) =
           map (touch_ticket (user_type usr) tid now) (support_tickets s) \<or>
         (user_type usr = ''student'' \<and>
          EscalateToHuman tid ''AI escalation recommended''
            \<in> set (calls (snd (sendMessage F ai now usr tid body s))) \<and>
          (\<exists>a. support_tickets (snd (sendMessage F ai now usr tid body s)) =
                 map (assign_ticket tid a now)
                   (map (touch_ticket (user_type usr) tid now) (support_tickets s))))"
proof -
  note ok = sendMessage_success [OF assms]
  let ?pw = "post_writes now usr tid body s"
  let ?s' = "snd (sendMessage F ai now usr tid body s)"
  show ?thesis
  proof (cases "user_type usr = ''student'' \<and> unassigned_ticket tid s \<noteq> None")
    case False
    then have "?s' = ?pw"
      using ok sendMessage_staff [of body F usr ai now tid s]
        sendMessage_assigned [of body F usr tid s ai now]
      by (cases "user_type usr = ''student''") auto
    then show ?thesis by (simp add: post_writes_fields)
  next
    case True
    then obtain ticket where t: "unassigned_ticket tid s = Some ticket" by auto
    let ?v = "ai (str_of (message_text body)) (st_ticket_type ticket)"
    let ?fw = "followup_writes ai now tid body ticket ?pw"
    have st: "?s' = (if needsHuman ?v
                     then escalateToHuman F now tid ''AI escalation recommended'' ?fw
                     else ?fw)"
      using True t ok sendMessage_unassigned [of body F usr tid s ticket ai now] by simp
    show ?thesis
    proof (cases "needsHuman ?v")
      case False
      then show ?thesis by (simp add: st followup_writes_fields post_writes_fields)
    next
      case needs: True
      from escalateToHuman_tickets [of F now tid "''AI escalation recommended''" ?fw]
      show ?thesis
        using True needs
        by (auto simp add: st escalateToHuman_frame followup_writes_fields post_writes_fields)
    qed
  qed
qed

lemma list_all2_map_same:
  assumes "\<And>x. x \<in> set xs \<Longrightarrow> R x (f x)"
  shows "list_all2 R xs (map f xs)"
  using assms by (induction xs) simp_all

text \<open>
  C5. Take a post that succeeds. The rows of other tickets stay as they are. On a row
  of the ticket the updated-at time becomes the time of the post; if the status was
  \<open>open\<close>, it is \<open>in_progress\<close> afterwards exactly when the role of the sender is
  \<open>support_agent\<close> or \<open>senior_support\<close>; and for any other role the status stays,
  unless the sender is a student and the escalation that followed the post assigned the
  ticket. The update of lines 202 to 211 itself leaves every status as it is for such a
  role.
\<close>

theorem sendMessage_status:
  assumes "fst (sendMessage F ai now usr tid body s) = Inr r"
  shows "list_all2
           (\<lambda>t t'. st_ticket_id t' = st_ticket_id t \<and>
              (st_ticket_id t \<noteq> tid \<longrightarrow> t' = t) \<and>
              (st_ticket_id t = tid \<longrightarrow>
                 st_updated_at t' = now \<and>
                 (st_status t = ''open'' \<longrightarrow>
                    (st_status t' = ''in_progress'') =
                      (user_type usr = ''support_agent'' \<or> user_type usr = ''senior_support'')) \<and>
                 (user_type usr \<noteq> ''support_agent'' \<and> user_type usr \<noteq> ''senior_support'' \<longrightarrow>
                    st_status t' = st_status t \<or>
                    user_type usr = ''student'' \<and> st_status t' = ''assigned'' \<and>
                    EscalateToHuman tid ''AI escalation recommended''
                      \<in> set (calls (snd (sendMessage F ai now usr tid body s))))))
           (support_tickets s)
           (support_tickets (snd (sendMessage F ai now usr tid body s))) \<and>
         (user_type usr \<noteq> ''support_agent'' \<and> user_type usr \<noteq> ''senior_support'' \<longrightarrow>
            map st_status (support_tickets (post_writes now usr tid body s)) =
              map st_status (support_tickets s))"
proof -
  let ?s' = "snd (sendMessage F ai now usr tid body s)"
  let ?touch = "touch_ticket (user_type usr) tid now"
  let ?R = "\<lambda>t t'. st_ticket_id t' = st_ticket_id t \<and>
              (st_ticket_id t \<noteq> tid \<longrightarrow> t' = t) \<and>
              (st_ticket_id t = tid \<longrightarrow>
                 st_updated_at t' = now \<and>
                 (st_status t = ''open'' \<longrightarrow>
                    (st_status t' = ''in_progress'') =
                      (user_type usr = ''support_agent'' \<or> user_type usr = ''senior_support'')) \<and>
                 (user_type usr \<noteq> ''support_agent'' \<and> user_type usr \<noteq> ''senior_support'' \<longrightarrow>
                    st_status t' = st_status t \<or>
                    user_type usr = ''student'' \<and> st_status t' = ''assigned'' \<and>
                    EscalateToHuman tid ''AI escalation recommended'' \<in> set (calls ?s')))"
  have touched: "?R t (?touch t)" for t
    by (simp add: touch_ticket_def)
  have assigned: "?R t (assign_ticket tid a now (?touch t))"
    if "user_type usr = ''student''"
      and "EscalateToHuman tid ''AI escalation recommended'' \<in> set (calls ?s')" for t a
    using that by (simp add: touch_ticket_def assign_ticket_def)
  have rel: "list_all2 ?R (support_tickets s) (support_tickets ?s')"
    using sendMessage_tickets [OF assms]
  proof (elim disjE conjE exE)
    assume eq: "support_tickets ?s' = map ?touch (support_tickets s)"
    have "list_all2 ?R (support_tickets s) (map ?touch (support_tickets s))"
      using touched by (intro list_all2_map_same)
    then show ?thesis by (simp only: eq)
  next
    fix a
    assume st: "user_type usr = ''student''"
      and esc: "EscalateToHuman tid ''AI escalation recommended'' \<in> set (calls ?s')"
      and eq: "support_tickets ?s' = map (assign_ticket tid a now) (map ?touch (support_tickets s))"
    have "list_all2 ?R (support_tickets s)
            (map (\<lambda>t. assign_ticket tid a now (?touch t)) (support_tickets s))"
      using assigned [OF st esc] by (intro list_all2_map_same)
    then show ?thesis by (simp only: eq map_map o_def)
  qed
  have step: "user_type usr \<noteq> ''support_agent'' \<and> user_type usr \<noteq> ''senior_support'' \<longrightarrow>
            map st_status (support_tickets (post_writes now usr tid body s)) =
              map st_status (support_tickets s)"
    by (auto simp add: post_writes_fields touch_ticket_def)
  from rel step show ?thesis by blast
qed



text \<open>A post of the owner of ticket 4 with a classifier that does not ask for a human.\<close>

lemma hello_calm_run:
  "fst (sendMessage no_faults calm_ai 20 student5 4 hello notes_store) =
     Inr \<lparr>sent_message = ''Message sent successfully'', message_id = 10\<rparr>"
  "map (\<lambda>t. (st_ticket_id t, st_status t, st_assigned_to t, st_updated_at t))
     (support_tickets (snd (sendMessage no_faults calm_ai 20 student5 4 hello notes_store))) =
     [(4, ''open'', None, 20)]"
  by (simp_all add: sendMessage_def insert_message_def touch_ticket_def
      truthy_str_def truthy_id_def str_of_def or_default_def or_false_def senderTypeMap_def
      trim_def is_space_def no_faults_def calm_ai_def student5_def hello_def
      notes_store_def empty_store_def demo_user_def demo_ticket_def Let_def)

text \<open>
  The theorem on the open ticket 4: the post of agent 11 makes it \<open>in_progress\<close>; the
  post of its owner leaves it \<open>open\<close>, or \<open>assigned\<close> when the classifier asks for
  a human; each post sets the updated-at time to 20.
\<close>

theorem sendMessage_status_witness:
  "fst (sendMessage no_faults worried_ai 20 agent11 4 hello notes_store) =
     Inr \<lparr>sent_message = ''Message sent successfully'', message_id = 10\<rparr> \<and>
   map (\<lambda>t. (st_ticket_id t, st_status t, st_updated_at t)) (support_tickets notes_store) =
     [(4, ''open'', 10)] \<and>
   map (\<lambda>t. (st_ticket_id t, st_status t, st_updated_at t))
     (support_tickets (snd (sendMessage no_faults worried_ai 20 agent11 4 hello notes_store))) =
     [(4, ''in_progress'', 20)] \<and>
   map (\<lambda>t. (st_ticket_id t, st_status t, st_assigned_to t, st_updated_at t))
     (support_tickets (snd (sendMessage no_faults calm_ai 20 student5 4 hello notes_store))) =
     [(4, ''open'', None, 20)] \<and>
   map (\<lambda>t. (st_ticket_id t, st_status t, st_assigned_to t, st_updated_at t))
     (support_tickets (snd (sendMessage no_faults worried_ai 20 student5 4 hello notes_store))) =
     [(4, ''assigned'', Some 11, 20)]"
proof -
  have old: "support_tickets notes_store = [demo_ticket 4 5 ''open'' None ''medium'' 10]"
    by (simp add: notes_store_def empty_store_def)
  have row: "st_ticket_id (demo_ticket 4 5 ''open'' None ''medium'' 10) = 4"
    "st_status (demo_ticket 4 5 ''open'' None ''medium'' 10) = ''open''"
    "st_updated_at (demo_ticket 4 5 ''open'' None ''medium'' 10) = 10"
    "user_type agent11 = ''support_agent''"
    by (simp_all add: demo_ticket_def agent11_def)
  from sendMessage_status [OF hello_agent_run(1)]
  have "list_all2
          (\<lambda>t t'. st_ticket_id t' = st_ticket_id t \<and> st_updated_at t' = 20 \<and>
                   st_status t' = ''in_progress'')
          [demo_ticket 4 5 ''open'' None ''medium'' 10]
          (support_tickets (snd (sendMessage no_faults worried_ai 20 agent11 4 hello notes_store)))"
    by (auto simp add: old row list_all2_Cons1)
  then have "map (\<lambda>t. (st_ticket_id t, st_status t, st_updated_at t))
     (support_tickets (snd (sendMessage no_faults worried_ai 20 agent11 4 hello notes_store))) =
     [(4, ''in_progress'', 20)]"
    by (auto simp add: list_all2_Cons1 row)
  then show ?thesis
    by (simp add: hello_agent_run(1) hello_calm_run hello_student_run old row)
qed

subsection \<open>Who may post\<close>

lemma sendMessage_messages:
  assumes "fst (sendMessage F ai now usr tid body s) = Inr r"
  shows "\<exists>rest. chat_messages (snd (sendMessage F ai now usr tid body s)) =
                  chat_messages (post_writes now usr tid body s) @ rest"
proof -
  note ok = sendMessage_success [OF assms]
  let ?pw = "post_writes now usr tid body s"
  let ?s' = "snd (sendMessage F ai now usr tid body s)"
  show ?thesis
  proof (cases "user_type usr = ''student'' \<and> unassigned_ticket tid s \<noteq> None")
    case False
    then have "?s' = ?pw"
      using ok sendMessage_staff [of body F usr ai now tid s]
        sendMessage_assigned [of body F usr tid s ai now]
      by (cases "user_type usr = ''student''") auto
    then show ?thesis by simp
  next
    case True
    then obtain ticket where t: "unassigned_ticket tid s = Some ticket" by auto
    let ?v = "ai (str_of (message_text body)) (st_ticket_type ticket)"
    let ?fw = "followup_writes ai now tid body ticket ?pw"
    have st: "?s' = (if needsHuman ?v
                     then escalateToHuman F now tid ''AI escalation recommended'' ?fw
                     else ?fw)"
      using True t ok sendMessage_unassigned [of body F usr tid s ticket ai now] by simp
    from escalateToHuman_messages [of F now tid "''AI escalation recommended''" ?fw]
    show ?thesis
      by (auto simp add: st followup_writes_fields)
  qed
qed

lemma sendMessage_returns:
  assumes "has_text body" and "\<not> F SM_insert_message" and "\<not> F SM_update_ticket"
    and "\<not> F SM_select_ticket" and "\<not> F SM_generate"
    and "\<not> F SM_insert_ai_message" and "\<not> F SM_insert_ai_log"
  shows "fst (sendMessage F ai now usr tid body s) =
           Inr \<lparr>sent_message = ''Message sent successfully'', message_id = message_seq s\<rparr>"
proof (cases "user_type usr = ''student''")
  case False
  then show ?thesis using assms by (simp add: sendMessage_staff)
next
  case True
  show ?thesis
  proof (cases "unassigned_ticket tid s")
    case None
    then show ?thesis using True assms by (simp add: sendMessage_assigned)
  next
    case (Some ticket)
    then show ?thesis using True assms by (simp add: sendMessage_unassigned)
  qed
qed

text \<open>
  C10, as the code has it. A post whose text is not blank (not empty after trimming
  white space) succeeds for every user and every ticket identity when none of the calls
  of the handler throws, and appends the message of that user to the ticket; the handler
  checks neither role nor ownership. The listing, for a student who does not own the
  ticket, answers 403.
\<close>

theorem sendMessage_any_user:
  assumes "has_text body" and "\<not> F SM_insert_message" and "\<not> F SM_update_ticket"
    and "\<not> F SM_select_ticket" and "\<not> F SM_generate"
    and "\<not> F SM_insert_ai_message" and "\<not> F SM_insert_ai_log"
  shows "fst (sendMessage F ai now usr tid body s) =
           Inr \<lparr>sent_message = ''Message sent successfully'', message_id = message_seq s\<rparr> \<and>
         (\<exists>rest. chat_messages (snd (sendMessage F ai now usr tid body s)) =
            chat_messages s @
              \<lparr>cm_message_id = message_seq s, cm_ticket_id = tid,
                cm_sender_id = Some (user_id usr),
                cm_sender_type = or_default (senderTypeMap (user_type usr)) ''customer'',
                cm_message_text = str_of (message_text body),
                cm_is_internal_note = or_false (is_internal_note body),
                cm_is_ai_generated = False, cm_ai_confidence_score = None,
                cm_created_at = now\<rparr> # rest) \<and>
         (user_type usr = ''student'' \<and> \<not> F GM_select_ticket \<and>
          filter (\<lambda>t. st_ticket_id t = tid \<and> st_user_id t = user_id usr) (support_tickets s) = []
          \<longrightarrow> getTicketMessages F usr tid s = Inl (Forbidden ''Access denied''))"
proof -
  have ret: "fst (sendMessage F ai now usr tid body s) =
           Inr \<lparr>sent_message = ''Message sent successfully'', message_id = message_seq s\<rparr>"
    using assms by (rule sendMessage_returns)
  from sendMessage_messages [OF ret]
  have msg: "\<exists>rest. chat_messages (snd (sendMessage F ai now usr tid body s)) =
            chat_messages s @
              \<lparr>cm_message_id = message_seq s, cm_ticket_id = tid,
                cm_sender_id = Some (user_id usr),
                cm_sender_type = or_default (senderTypeMap (user_type usr)) ''customer'',
                cm_message_text = str_of (message_text body),
                cm_is_internal_note = or_false (is_internal_note body),
                cm_is_ai_generated = False, cm_ai_confidence_score = None,
                cm_created_at = now\<rparr> # rest"
    by (auto simp add: post_writes_fields)
  have deny: "user_type usr = ''student'' \<and> \<not> F GM_select_ticket \<and>
          filter (\<lambda>t. st_ticket_id t = tid \<and> st_user_id t = user_id usr) (support_tickets s) = []
          \<longrightarrow> getTicketMessages F usr tid s = Inl (Forbidden ''Access denied'')"
    by (simp add: getTicketMessages_def Let_def)
  from ret msg deny show ?thesis by blast
qed


text \<open>
  The theorem for student 6 on ticket 4 of student 5: the post succeeds and the message
  is appended, while the listing of the same ticket is refused.
\<close>

theorem sendMessage_any_user_witness:
  "has_text hello \<and> user_type student6 = ''student'' \<and> user_id student6 = 6 \<and>
   map (\<lambda>t. (st_ticket_id t, st_user_id t)) (support_tickets notes_store) = [(4, 5)] \<and>
   fst (sendMessage no_faults calm_ai 20 student6 4 hello notes_store) =
     Inr \<lparr>sent_message = ''Message sent successfully'', message_id = 10\<rparr> \<and>
   map (\<lambda>m. (cm_message_id m, cm_ticket_id m, cm_sender_id m))
     (chat_messages (snd (sendMessage no_faults calm_ai 20 student6 4 hello notes_store))) =
     [(8, 4, Some 5), (9, 4, Some 11), (10, 4, Some 6), (11, 4, None)] \<and>
   getTicketMessages no_faults student6 4 notes_store = Inl (Forbidden ''Access denied'')"
proof -
  have ht: "has_text hello"
    by (simp add: has_text_def hello_def truthy_str_def str_of_def trim_def is_space_def)
  have nf: "\<not> no_faults site" for site
    by (simp add: no_faults_def)
  have who: "user_type student6 = ''student''" "user_id student6 = 6"
    by (simp_all add: student6_def)
  have rows: "map (\<lambda>t. (st_ticket_id t, st_user_id t)) (support_tickets notes_store) = [(4, 5)]"
    "filter (\<lambda>t. st_ticket_id t = 4 \<and> st_user_id t = 6) (support_tickets notes_store) = []"
    "message_seq notes_store = 10"
    by (simp_all add: notes_store_def empty_store_def demo_ticket_def)
  have msgs: "map (\<lambda>m. (cm_message_id m, cm_ticket_id m, cm_sender_id m))
     (chat_messages (snd (sendMessage no_faults calm_ai 20 student6 4 hello notes_store))) =
     [(8, 4, Some 5), (9, 4, Some 11), (10, 4, Some 6), (11, 4, None)]"
    by (simp add: sendMessage_def insert_message_def touch_ticket_def
      truthy_str_def truthy_id_def str_of_def or_default_def or_false_def senderTypeMap_def
      trim_def is_space_def no_faults_def calm_ai_def student6_def hello_def
      notes_store_def empty_store_def demo_user_def demo_ticket_def Let_def)
  from sendMessage_any_user [of hello no_faults calm_ai 20 student6 4 notes_store,
      OF ht nf nf nf nf nf nf]
  have "fst (sendMessage no_faults calm_ai 20 student6 4 hello notes_store) =
     Inr \<lparr>sent_message = ''Message sent successfully'', message_id = 10\<rparr> \<and>
     getTicketMessages no_faults student6 4 notes_store = Inl (Forbidden ''Access denied'')"
    by (simp add: who rows nf)
  with ht who rows(1) msgs show ?thesis by simp
qed


text \<open>
  C10 as the spec states it fails for a text that is not empty but blank: the post of
  a single space is refused with 400 and writes nothing.
\<close>

theorem blank_text_counterexample:
  "message_text blank = Some '' '' \<and> '' '' \<noteq> [] \<and>
   user_type student5 = ''student'' \<and>
   map (\<lambda>t. (st_ticket_id t, st_user_id t)) (support_tickets notes_store) = [(4, 5)] \<and>
   user_id student5 = 5 \<and>
   sendMessage no_faults calm_ai 20 student5 4 blank notes_store =
     (Inl (BadRequest ''Message text is required''), notes_store)"
  by (simp add: sendMessage_def truthy_str_def str_of_def trim_def is_space_def blank_def
      student5_def notes_store_def empty_store_def demo_ticket_def)

subsection \<open>The open tickets an agent sees\<close>

lemma ticket_order_le:
  "ticket_order a \<le> ticket_order b \<longleftrightarrow>
     priority_rank (st_priority b) < priority_rank (st_priority a) \<or>
     priority_rank (st_priority a) = priority_rank (st_priority b) \<and>
     st_created_at a \<le> st_created_at b"
  by (auto simp add: ticket_order_def)

lemma priority_rank_order:
  "priority_rank ''low'' < priority_rank ''medium''"
  "priority_rank ''medium'' < priority_rank ''high''"
  "priority_rank ''high'' < priority_rank ''urgent''"
  by (simp_all add: priority_rank_def)

text \<open>
  C9. The listing returns the tickets of the store that pass the filter the handler
  builds. None of them is resolved or closed; when the role of the caller is
  \<open>support_agent\<close>, each of them is unassigned or assigned to the caller; and they come
  by descending priority, urgent before high before medium before low, and by ascending
  creation time among tickets of one priority.
\<close>

theorem getAllTickets_listing:
  assumes "getAllTickets F usr q s = Inr ts"
  shows "set ts = {t \<in> set (support_tickets s). open_ticket usr q s t} \<and>
         (\<forall>t \<in> set ts.
            st_status t \<noteq> ''resolved'' \<and> st_status t \<noteq> ''closed'' \<and>
            (user_type usr = ''support_agent'' \<longrightarrow>
               st_assigned_to t = None \<or> st_assigned_to t = Some (user_id usr))) \<and>
         sorted_wrt
           (\<lambda>a b. priority_rank (st_priority b) < priority_rank (st_priority a) \<or>
                  priority_rank (st_priority a) = priority_rank (st_priority b) \<and>
                  st_created_at a \<le> st_created_at b) ts \<and>
         priority_rank ''low'' < priority_rank ''medium'' \<and>
         priority_rank ''medium'' < priority_rank ''high'' \<and>
         priority_rank ''high'' < priority_rank ''urgent''"
proof -
  from assms have ts: "ts = sort_key ticket_order (filter (open_ticket usr q s) (support_tickets s))"
    by (simp add: getAllTickets_def split: if_splits)
  have rows: "set ts = {t \<in> set (support_tickets s). open_ticket usr q s t}"
    by (simp add: ts)
  have scope: "\<forall>t \<in> set ts.
            st_status t \<noteq> ''resolved'' \<and> st_status t \<noteq> ''closed'' \<and>
            (user_type usr = ''support_agent'' \<longrightarrow>
               st_assigned_to t = None \<or> st_assigned_to t = Some (user_id usr))"
    by (simp add: rows open_ticket_def)
  have "sorted (map ticket_order ts)"
    by (simp only: ts sorted_sort_key)
  then have "sorted_wrt (\<lambda>a b. ticket_order a \<le> ticket_order b) ts"
    by (simp only: sorted_map)
  then have ordered: "sorted_wrt
           (\<lambda>a b. priority_rank (st_priority b) < priority_rank (st_priority a) \<or>
                  priority_rank (st_priority a) = priority_rank (st_priority b) \<and>
                  st_created_at a \<le> st_created_at b) ts"
    by (simp only: ticket_order_le)
  from rows scope ordered priority_rank_order show ?thesis by blast
qed


text \<open>The listing of the store with eight tickets, for an admin and for agent 12.\<close>

lemma admin_listing:
  "getAllTickets no_faults admin20 no_filter loads_store =
     Inr [demo_ticket 4 5 ''in_progress'' (Some 12) ''urgent'' 13,
          demo_ticket 2 5 ''in_progress'' (Some 11) ''high'' 11,
          demo_ticket 7 5 ''in_progress'' (Some 13) ''high'' 16,
          demo_ticket 3 5 ''assigned'' (Some 11) ''medium'' 12,
          demo_ticket 6 5 ''assigned'' (Some 13) ''medium'' 15,
          demo_ticket 8 5 ''open'' None ''medium'' 17,
          demo_ticket 1 5 ''assigned'' (Some 11) ''low'' 10]"
  by (simp add: getAllTickets_def open_ticket_def ticket_order_def priority_rank_def
      truthy_str_def no_faults_def admin20_def no_filter_def loads_store_def empty_store_def
      demo_user_def demo_ticket_def)

lemma agent_listing:
  "getAllTickets no_faults agent12 no_filter loads_store =
     Inr [demo_ticket 4 5 ''in_progress'' (Some 12) ''urgent'' 13,
          demo_ticket 8 5 ''open'' None ''medium'' 17]"
  by (simp add: getAllTickets_def open_ticket_def ticket_order_def priority_rank_def
      truthy_str_def no_faults_def agent12_def no_filter_def loads_store_def empty_store_def
      demo_user_def demo_ticket_def)

text \<open>
  The theorem on that store: the admin sees every ticket but the resolved one, in the
  order of the claim; agent 12 sees the ticket assigned to 12 and the unassigned one.
\<close>

theorem getAllTickets_listing_witness:
  "map_sum id (map st_ticket_id) (getAllTickets no_faults admin20 no_filter loads_store) =
     Inr [4, 2, 7, 3, 6, 8, 1] \<and>
   map_sum id (map (\<lambda>t. (st_priority t, st_created_at t)))
     (getAllTickets no_faults admin20 no_filter loads_store) =
     Inr [(''urgent'', 13), (''high'', 11), (''high'', 16), (''medium'', 12), (''medium'', 15),
          (''medium'', 17), (''low'', 10)] \<and>
   map (\<lambda>t. (st_ticket_id t, st_status t)) (support_tickets loads_store) =
     [(1, ''assigned''), (2, ''in_progress''), (3, ''assigned''), (4, ''in_progress''),
      (5, ''resolved''), (6, ''assigned''), (7, ''in_progress''), (8, ''open'')] \<and>
   map_sum id (map (\<lambda>t. (st_ticket_id t, st_assigned_to t)))
     (getAllTickets no_faults agent12 no_filter loads_store) =
     Inr [(4, Some 12), (8, None)] \<and>
   sorted_wrt
     (\<lambda>a b. priority_rank (st_priority b) < priority_rank (st_priority a) \<or>
            priority_rank (st_priority a) = priority_rank (st_priority b) \<and>
            st_created_at a \<le> st_created_at b)
     [demo_ticket 4 5 ''in_progress'' (Some 12) ''urgent'' 13,
      demo_ticket 2 5 ''in_progress'' (Some 11) ''high'' 11,
      demo_ticket 7 5 ''in_progress'' (Some 13) ''high'' 16,
      demo_ticket 3 5 ''assigned'' (Some 11) ''medium'' 12,
      demo_ticket 6 5 ''assigned'' (Some 13) ''medium'' 15,
      demo_ticket 8 5 ''open'' None ''medium'' 17,
      demo_ticket 1 5 ''assigned'' (Some 11) ''low'' 10]"
proof -
  from getAllTickets_listing [OF admin_listing]
  have "sorted_wrt
     (\<lambda>a b. priority_rank (st_priority b) < priority_rank (st_priority a) \<or>
            priority_rank (st_priority a) = priority_rank (st_priority b) \<and>
            st_created_at a \<le> st_created_at b)
     [demo_ticket 4 5 ''in_progress'' (Some 12) ''urgent'' 13,
      demo_ticket 2 5 ''in_progress'' (Some 11) ''high'' 11,
      demo_ticket 7 5 ''in_progress'' (Some 13) ''high'' 16,
      demo_ticket 3 5 ''assigned'' (Some 11) ''medium'' 12,
      demo_ticket 6 5 ''assigned'' (Some 13) ''medium'' 15,
      demo_ticket 8 5 ''open'' None ''medium'' 17,
      demo_ticket 1 5 ''assigned'' (Some 11) ''low'' 10]"
    by blast
  moreover have "map_sum id (map st_ticket_id) (getAllTickets no_faults admin20 no_filter loads_store) =
     Inr [4, 2, 7, 3, 6, 8, 1]"
    "map_sum id (map (\<lambda>t. (st_priority t, st_created_at t)))
     (getAllTickets no_faults admin20 no_filter loads_store) =
     Inr [(''urgent'', 13), (''high'', 11), (''high'', 16), (''medium'', 12), (''medium'', 15),
          (''medium'', 17), (''low'', 10)]"
    by (simp_all add: admin_listing demo_ticket_def)
  moreover have "map_sum id (map (\<lambda>t. (st_ticket_id t, st_assigned_to t)))
     (getAllTickets no_faults agent12 no_filter loads_store) =
     Inr [(4, Some 12), (8, None)]"
    by (simp add: agent_listing demo_ticket_def)
  moreover have "map (\<lambda>t. (st_ticket_id t, st_status t)) (support_tickets loads_store) =
     [(1, ''assigned''), (2, ''in_progress''), (3, ''assigned''), (4, ''in_progress''),
      (5, ''resolved''), (6, ''assigned''), (7, ''in_progress''), (8, ''open'')]"
    by (simp add: loads_store_def empty_store_def demo_ticket_def)
  ultimately show ?thesis by blast
qed

end
